theory Spec2Isabelle
  imports Main "HOL-Library.Sublist" "HOL-Library.Multiset"
begin

section \<open>Stored records\<close>

text \<open>
  Modelled from the spec: the declaration of \<^verbatim>\<open>TeamMemberUpdate\<close> is imported from
  \<^verbatim>\<open>'../../../types'\<close>, which is not among the sources. The spec's update record is
  \<^verbatim>\<open>{authorId, authorName, sourceChannelName, categoryTag, timestamp, answers}\<close>; the
  field names are the ones \<^verbatim>\<open>generateTeamReport\<close> reads. The code tests
  \<^verbatim>\<open>teamMemberName\<close> and \<^verbatim>\<open>answers\<close> for falsiness, so both may be absent
  (\<open>None\<close> is \<^verbatim>\<open>undefined\<close>); \<^verbatim>\<open>answers\<close> is a JSON text.
\<close>

record TeamMemberUpdate =
  teamMemberId :: string
  teamMemberName :: "string option"
  serverName :: "string option"
  checkInType :: string
  timestamp :: string
  answers :: "string option"

text \<open>
  A stored memory, as far as the code looks into it: \<^verbatim>\<open>memory.content\<close> may be absent
  (the code reads it with \<^verbatim>\<open>?.\<close>), and so may each of \<^verbatim>\<open>content.text\<close>,
  \<^verbatim>\<open>content.type\<close> and \<^verbatim>\<open>content.update\<close>. The field \<^verbatim>\<open>text\<close> is named
  \<open>text'\<close> here.
\<close>

record Content =
  text' :: "string option"
  type :: "string option"
  update :: "TeamMemberUpdate option"

record Memory =
  content :: "Content option"
  roomId :: string

text \<open>JavaScript truthiness of an optional string: \<^verbatim>\<open>undefined\<close> and \<^verbatim>\<open>''\<close> are falsy.\<close>

fun truthy :: "string option \<Rightarrow> bool" where
  "truthy None = False"
| "truthy (Some s) = (s \<noteq> [])"

section \<open>Errors and collaborators\<close>

text \<open>
  A value thrown inside the code: \<open>TypeError\<close> is raised by the JavaScript runtime
  itself; the other two are thrown by a collaborator (the memory store, the text
  generation, the delivery callback). \<open>ThrownNullish\<close> is a throw of \<^verbatim>\<open>null\<close> or
  \<^verbatim>\<open>undefined\<close>, the two values on which reading a property throws; \<open>Thrown\<close> is a
  throw of any other value, an \<^verbatim>\<open>Error\<close> object as a rule.
\<close>

datatype error = TypeError | Thrown string | ThrownNullish

text \<open>
  The value bound to \<^verbatim>\<open>answers\<close> by
  \<^verbatim>\<open>update.answers ? JSON.parse(update.answers) : {}\<close>: the empty object literal or
  what \<^verbatim>\<open>JSON.parse\<close> returned. The type \<open>'j\<close> is the type of JavaScript values that
  \<^verbatim>\<open>JSON.parse\<close> returns.
\<close>

datatype 'j answersValue = EmptyObject | Parsed 'j

text \<open>
  An element of \<^verbatim>\<open>processedUpdates\<close>: the object literal of lines 86 to 93 (five fields
  copied from the update, and the decoded answers), or the update itself, returned by the
  \<^verbatim>\<open>catch\<close> of line 94.
\<close>

datatype 'j processed =
  Decoded string "string option" "string option" string string "'j answersValue"
| Raw TeamMemberUpdate

text \<open>
  The built-in operations of the JavaScript runtime that the code calls. They are
  parameters of the model, so every theorem holds for whatever they compute.
  \<^item> \<open>toLowerCase\<close>, \<open>trim\<close>: the string methods;
  \<^item> \<open>getTime ts\<close>: \<^verbatim>\<open>new Date(ts).getTime()\<close>, \<open>None\<close> when it is \<^verbatim>\<open>NaN\<close>
    (the timestamp does not parse). The comparator of line 50 subtracts two such values;
    only the sign of the difference is used, which is that of the exact difference;
  \<^item> \<open>toLocaleString ts\<close>: \<^verbatim>\<open>new Date(ts).toLocaleString()\<close>, which never throws
    (an invalid date prints as \<^verbatim>\<open>Invalid Date\<close>);
  \<^item> \<open>JSON_parse\<close>: \<open>None\<close> when \<^verbatim>\<open>JSON.parse\<close> throws a \<^verbatim>\<open>SyntaxError\<close>;
  \<^item> \<open>Object_entries\<close>: \<open>None\<close> when \<^verbatim>\<open>Object.entries\<close> throws (on \<^verbatim>\<open>null\<close>);
  \<^item> \<open>toStr\<close>: the conversion of a value inside a template literal, \<open>None\<close> when it
    throws (an object whose \<^verbatim>\<open>toString\<close> and \<^verbatim>\<open>valueOf\<close> give no primitive);
  \<^item> \<open>JSON_stringify\<close>: \<^verbatim>\<open>JSON.stringify(processedUpdates, null, 2)\<close>;
  \<^item> \<open>engineSortOrder xs\<close>: the order in which the engine's \<^verbatim>\<open>Array.prototype.sort\<close>
    leaves the array \<open>xs\<close> when the comparator of line 50 is not consistent on it, as
    the list of the old positions of its elements. ECMAScript leaves this order to the
    implementation.
\<close>

record 'j builtins =
  toLowerCase :: "string \<Rightarrow> string"
  trim :: "string \<Rightarrow> string"
  getTime :: "string \<Rightarrow> int option"
  toLocaleString :: "string \<Rightarrow> string"
  JSON_parse :: "string \<Rightarrow> 'j option"
  Object_entries :: "'j \<Rightarrow> (string \<times> 'j) list option"
  toStr :: "'j \<Rightarrow> string option"
  JSON_stringify :: "'j processed list \<Rightarrow> string"
  engineSortOrder :: "TeamMemberUpdate list \<Rightarrow> nat list"

text \<open>
  The agent runtime. \<open>getMemories\<close> is the outcome of
  \<^verbatim>\<open>runtime.getMemories({tableName: 'messages', agentId: runtime.agentId})\<close>.
  \<open>useModel n prompt\<close> is the outcome of the call
  \<^verbatim>\<open>runtime.useModel(ModelType.TEXT_LARGE, {prompt, stopSequences: []})\<close> when \<open>n\<close> calls
  of \<^verbatim>\<open>useModel\<close> have been made before it: the same prompt may be answered differently
  by two calls. \<open>Inl\<close> is a rejected promise.
\<close>

record runtime =
  getMemories :: "error + Memory list"
  useModel :: "nat \<Rightarrow> string \<Rightarrow> error + string"

section \<open>generateTeamReport: filtering and sorting\<close>

text \<open>
  The callback of the first \<^verbatim>\<open>filter\<close> (lines 36 to 47). \<^verbatim>\<open>requestedType\<close> and
  \<^verbatim>\<open>checkInType\<close> are computed and not used: the comparison with \<^verbatim>\<open>checkInType\<close> is
  commented out in the source.
\<close>

definition isTeamMemberUpdate :: "'j builtins \<Rightarrow> string \<Rightarrow> Memory \<Rightarrow> bool" where
  "isTeamMemberUpdate js standupType memory =
     (let contentType = (case content memory of None \<Rightarrow> None | Some c \<Rightarrow> type c);
          requestedType = toLowerCase js standupType;
          checkInType' = (case content memory of None \<Rightarrow> None
                          | Some c \<Rightarrow> (case update c of None \<Rightarrow> None
                                       | Some u \<Rightarrow> Some (checkInType u)))
      in contentType = Some ''team-member-update'')"

text \<open>Line 48: \<^verbatim>\<open>(memory.content as {update})?.update\<close>.\<close>

definition contentUpdate :: "Memory \<Rightarrow> TeamMemberUpdate option" where
  "contentUpdate memory = (case content memory of None \<Rightarrow> None | Some c \<Rightarrow> update c)"

text \<open>Line 49: \<^verbatim>\<open>.filter((update) => !!update)\<close>; an update object is truthy.\<close>

fun definedUpdates :: "TeamMemberUpdate option list \<Rightarrow> TeamMemberUpdate list" where
  "definedUpdates [] = []"
| "definedUpdates (None # rest) = definedUpdates rest"
| "definedUpdates (Some u # rest) = u # definedUpdates rest"

text \<open>
  The comparator of line 50,
  \<^verbatim>\<open>(a, b) => new Date(b.timestamp).getTime() - new Date(a.timestamp).getTime()\<close>;
  \<open>None\<close> is \<^verbatim>\<open>NaN\<close>.
\<close>

definition compareFn :: "'j builtins \<Rightarrow> TeamMemberUpdate \<Rightarrow> TeamMemberUpdate \<Rightarrow> int option" where
  "compareFn js a b =
     (case getTime js (timestamp b) of None \<Rightarrow> None
      | Some tb \<Rightarrow> (case getTime js (timestamp a) of None \<Rightarrow> None
                   | Some ta \<Rightarrow> Some (tb - ta)))"

text \<open>
  \<^verbatim>\<open>Array.prototype.sort\<close> with a comparator. The result of the comparator is read as
  a number, and \<^verbatim>\<open>NaN\<close> is read as \<open>0\<close>; the sort throws only when the comparator
  does, and \<open>compareFn\<close> never does.

  When the comparator gives a number for every two elements of the array (here: when
  every timestamp parses, so that it is a consistent comparator), the result is the same
  for every conforming implementation, the sort being stable: it is computed here by
  insertion, an element moving behind the elements that the comparator puts strictly
  before it. Otherwise the result is a rearrangement of the array that ECMAScript leaves
  to the implementation: it is read from the parameter \<open>order\<close>, the list of the old
  positions, and an \<open>order\<close> that is no rearrangement of the positions leaves the array
  as it is.
\<close>

definition sortOrder :: "int option \<Rightarrow> int" where
  "sortOrder v = (case v of None \<Rightarrow> 0 | Some n \<Rightarrow> n)"

fun insertSorted :: "('a \<Rightarrow> 'a \<Rightarrow> int option) \<Rightarrow> 'a \<Rightarrow> 'a list \<Rightarrow> 'a list" where
  "insertSorted cmp x [] = [x]"
| "insertSorted cmp x (y # ys) =
     (if 0 < sortOrder (cmp x y) then y # insertSorted cmp x ys else x # y # ys)"

definition comparable :: "('a \<Rightarrow> 'a \<Rightarrow> int option) \<Rightarrow> 'a list \<Rightarrow> bool" where
  "comparable cmp xs = list_all (\<lambda>a. list_all (\<lambda>b. cmp a b \<noteq> None) xs) xs"

definition rearrange :: "nat list \<Rightarrow> 'a list \<Rightarrow> 'a list" where
  "rearrange order xs =
     (if sort order = [0..<length xs] then map (\<lambda>i. xs ! i) order else xs)"

definition arraySort ::
  "('a list \<Rightarrow> nat list) \<Rightarrow> ('a \<Rightarrow> 'a \<Rightarrow> int option) \<Rightarrow> 'a list \<Rightarrow> 'a list" where
  "arraySort order cmp xs =
     (if comparable cmp xs then foldr (insertSorted cmp) xs [] else rearrange (order xs) xs)"

text \<open>Lines 35 to 50: the value of \<^verbatim>\<open>updates\<close>.\<close>

definition matchingUpdates :: "'j builtins \<Rightarrow> string \<Rightarrow> Memory list \<Rightarrow> TeamMemberUpdate list" where
  "matchingUpdates js standupType memories =
     arraySort (engineSortOrder js) (compareFn js)
       (definedUpdates (map contentUpdate (filter (isTeamMemberUpdate js standupType) memories)))"

section \<open>generateTeamReport: grouping by team member\<close>

text \<open>
  \<^verbatim>\<open>updatesByMember\<close> is a plain object used as a dictionary. Its own properties are
  kept here in the order of their creation, each with its array of updates.
\<close>

type_synonym memberGroups = "(string \<times> TeamMemberUpdate list) list"

text \<open>
  A read \<^verbatim>\<open>updatesByMember[key]\<close> that finds no own property continues in
  \<^verbatim>\<open>Object.prototype\<close>: for the names below it yields a function (or, for
  \<^verbatim>\<open>__proto__\<close>, the prototype object), which is truthy and has no \<^verbatim>\<open>push\<close>.
\<close>

definition objectPrototypeKeys :: "string list" where
  "objectPrototypeKeys =
     [''constructor'', ''hasOwnProperty'', ''isPrototypeOf'', ''propertyIsEnumerable'',
      ''toLocaleString'', ''toString'', ''valueOf'', ''__proto__'',
      ''__defineGetter__'', ''__defineSetter__'', ''__lookupGetter__'', ''__lookupSetter__'']"

text \<open>Line 71: \<^verbatim>\<open>updatesByMember[key].push(update)\<close> on an own property.\<close>

definition pushUpdate :: "memberGroups \<Rightarrow> string \<Rightarrow> TeamMemberUpdate \<Rightarrow> memberGroups" where
  "pushUpdate groups key u = map (\<lambda>(k, us). if k = key then (k, us @ [u]) else (k, us)) groups"

text \<open>
  Lines 68 to 71, one iteration of the grouping loop. An own property holds an array,
  which is truthy. Without an own property, a name of \<^verbatim>\<open>Object.prototype\<close> reads as
  truthy, line 69 is skipped and \<^verbatim>\<open>push\<close> of line 71 is not a function: a
  \<^verbatim>\<open>TypeError\<close>. Any other name reads as \<^verbatim>\<open>undefined\<close>, and line 69 creates the
  property with an empty array.
\<close>

definition groupStep :: "memberGroups \<Rightarrow> TeamMemberUpdate \<Rightarrow> error + memberGroups" where
  "groupStep groups u =
     (let key = teamMemberId u in
      case map_of groups key of
        Some us \<Rightarrow> Inr (pushUpdate groups key u)
      | None \<Rightarrow>
          if key \<in> set objectPrototypeKeys then Inl TypeError
          else Inr (pushUpdate (groups @ [(key, [])]) key u))"

fun groupLoop :: "TeamMemberUpdate list \<Rightarrow> memberGroups \<Rightarrow> error + memberGroups" where
  "groupLoop [] groups = Inr groups"
| "groupLoop (u # rest) groups =
     (case groupStep groups u of Inl e \<Rightarrow> Inl e | Inr groups' \<Rightarrow> groupLoop rest groups')"

text \<open>Lines 63 to 72.\<close>

definition groupByMember :: "TeamMemberUpdate list \<Rightarrow> error + memberGroups" where
  "groupByMember updates = groupLoop updates []"

text \<open>
  \<^verbatim>\<open>Object.entries\<close> lists the own properties in the order of ECMAScript's
  OrdinaryOwnPropertyKeys: first the keys that are array indices, in ascending numeric
  order, then the other string keys in the order of their creation. An array index is the
  canonical decimal text of an integer from \<open>0\<close> to \<open>2^32 - 2\<close>: digits only, no
  leading zero.
\<close>

definition isDigit :: "char \<Rightarrow> bool" where
  "isDigit c = (c \<in> set ''0123456789'')"

definition decimalValue :: "string \<Rightarrow> int" where
  "decimalValue s = foldl (\<lambda>n c. 10 * n + (of_char c - 48)) 0 s"

definition isArrayIndex :: "string \<Rightarrow> bool" where
  "isArrayIndex s =
     (case s of [] \<Rightarrow> False
      | c # cs \<Rightarrow>
          if c = CHR ''0'' then cs = []
          else list_all isDigit s \<and> decimalValue s < 4294967295)"

definition objectEntries :: "(string \<times> 'v) list \<Rightarrow> (string \<times> 'v) list" where
  "objectEntries props =
     sort_key (\<lambda>p. decimalValue (fst p)) (filter (\<lambda>p. isArrayIndex (fst p)) props)
     @ filter (\<lambda>p. \<not> isArrayIndex (fst p)) props"

text \<open>
  Lines 63 to 75: the pairs over which the loop of line 75 runs,
  \<^verbatim>\<open>Object.entries(updatesByMember)\<close>, or the error thrown by the grouping.
\<close>

definition memberEntries ::
  "TeamMemberUpdate list \<Rightarrow> error + (string \<times> TeamMemberUpdate list) list" where
  "memberEntries updates =
     (case groupByMember updates of
        Inl e \<Rightarrow> Inl e
      | Inr updatesByMember \<Rightarrow> Inr (objectEntries updatesByMember))"

section \<open>generateTeamReport: the text of the report\<close>

text \<open>
  Strings are lists of bytes; the emoji of the source are their UTF-8 encodings.
\<close>

definition nl :: string where "nl = [CHR 0x0A]"
definition dquote :: string where "dquote = [CHR 0x22]"
definition barChart :: string where "barChart = [CHR 0xF0, CHR 0x9F, CHR 0x93, CHR 0x8A]"
definition bust :: string where "bust = [CHR 0xF0, CHR 0x9F, CHR 0x91, CHR 0xA4]"
definition clipboard :: string where "clipboard = [CHR 0xF0, CHR 0x9F, CHR 0x93, CHR 0x8B]"
definition calendar :: string where "calendar = [CHR 0xF0, CHR 0x9F, CHR 0x93, CHR 0x85]"
definition clock :: string where "clock = [CHR 0xF0, CHR 0x9F, CHR 0x95, CHR 0x92]"
definition bullet :: string where
  "bullet = [CHR 0xE2, CHR 0x96, CHR 0xAB, CHR 0xEF, CHR 0xB8, CHR 0x8F]"
definition crossMark :: string where "crossMark = [CHR 0xE2, CHR 0x9D, CHR 0x8C]"

text \<open>Line 55.\<close>

definition heading :: "string \<Rightarrow> string" where
  "heading standupType =
     barChart @ '' **Team Progress Report - '' @ standupType @ '' Standups**'' @ nl @ nl"

text \<open>Line 58.\<close>

definition noUpdatesLine :: "string \<Rightarrow> string" where
  "noUpdatesLine standupType =
     ''No updates found for '' @ dquote @ standupType @ dquote
     @ '' standups in this room.'' @ nl"

text \<open>\<^verbatim>\<open>x || d\<close> on an optional string.\<close>

definition orElse :: "string option \<Rightarrow> string \<Rightarrow> string" where
  "orElse x d = (case x of None \<Rightarrow> d | Some s \<Rightarrow> if s = [] then d else s)"

text \<open>Line 76: \<^verbatim>\<open>memberUpdates[0]?.teamMemberName || 'Unknown'\<close>.\<close>

definition memberName :: "TeamMemberUpdate list \<Rightarrow> string" where
  "memberName memberUpdates =
     (case memberUpdates of [] \<Rightarrow> ''Unknown'' | u # rest \<Rightarrow> orElse (teamMemberName u) ''Unknown'')"

text \<open>Line 78.\<close>

definition memberHeader :: "string \<Rightarrow> string \<Rightarrow> string" where
  "memberHeader name key = bust @ '' **'' @ name @ ''** (ID: '' @ key @ '')'' @ nl @ nl"

text \<open>
  \<^verbatim>\<open>update.answers ? JSON.parse(update.answers) : {}\<close> (lines 84, 131 and 150);
  \<open>None\<close> when \<^verbatim>\<open>JSON.parse\<close> throws.
\<close>

definition decodeAnswers :: "'j builtins \<Rightarrow> TeamMemberUpdate \<Rightarrow> 'j answersValue option" where
  "decodeAnswers js u =
     (case answers u of
        None \<Rightarrow> Some EmptyObject
      | Some a \<Rightarrow>
          if a = [] then Some EmptyObject
          else (case JSON_parse js a of None \<Rightarrow> None | Some v \<Rightarrow> Some (Parsed v)))"

text \<open>Lines 81 to 98, the callback of \<^verbatim>\<open>memberUpdates.map\<close>.\<close>

definition processUpdate :: "'j builtins \<Rightarrow> TeamMemberUpdate \<Rightarrow> 'j processed" where
  "processUpdate js u =
     (case decodeAnswers js u of
        Some v \<Rightarrow>
          Decoded (teamMemberId u) (teamMemberName u) (serverName u) (checkInType u)
            (timestamp u) v
      | None \<Rightarrow> Raw u)"

text \<open>Lines 101 to 112.\<close>

definition analysisPrompt :: "'j builtins \<Rightarrow> 'j processed list \<Rightarrow> string" where
  "analysisPrompt js processedUpdates =
     ''Analyze these team member updates and provide a detailed productivity report.'' @ nl
     @ ''      '' @ nl
     @ ''      The '' @ dquote @ ''answers'' @ dquote
     @ '' field contains all the update information in a question-answer format.'' @ nl
     @ ''      '' @ nl
     @ ''      Highlight the following in your analysis:'' @ nl
     @ ''      1. Overall Progress: What major tasks/milestones were completed?'' @ nl
     @ ''      2. Current Focus: What are they actively working on?'' @ nl
     @ ''      3. Productivity Analysis: Are they meeting deadlines? Any patterns in their work?''
     @ nl
     @ ''      4. Blockers Impact: How are blockers affecting their progress?'' @ nl
     @ ''      5. Recommendations: What could improve their productivity?'' @ nl
     @ nl
     @ ''      Updates data: '' @ JSON_stringify js processedUpdates"

text \<open>\<^verbatim>\<open>Object.entries(answers)\<close>; the empty object has no entries.\<close>

definition entriesOf :: "'j builtins \<Rightarrow> 'j answersValue \<Rightarrow> (string \<times> 'j) list option" where
  "entriesOf js v = (case v of EmptyObject \<Rightarrow> Some [] | Parsed j \<Rightarrow> Object_entries js j)"

text \<open>
  The loop of lines 134 to 136 (and 153 to 155): the text it appends to the report, and
  whether it ran to its end. It stops when the conversion of an answer throws; the lines
  appended before stay in the report.
\<close>

fun entryLines :: "'j builtins \<Rightarrow> (string \<times> 'j) list \<Rightarrow> string \<times> bool" where
  "entryLines js [] = ([], True)"
| "entryLines js ((question, answer) # rest) =
     (case toStr js answer of
        None \<Rightarrow> ([], False)
      | Some s \<Rightarrow>
          (case entryLines js rest of
             (t, done) \<Rightarrow> (bullet @ '' **'' @ question @ ''**: '' @ s @ nl @ t, done)))"

definition errorLine :: string where
  "errorLine = bullet @ '' Error parsing update details'' @ nl"

text \<open>
  The \<^verbatim>\<open>try\<close>/\<^verbatim>\<open>catch\<close> of lines 130 to 140, which is repeated at lines 149 to 159:
  the text it appends for one update.
\<close>

definition answersText :: "'j builtins \<Rightarrow> TeamMemberUpdate \<Rightarrow> string" where
  "answersText js u =
     (case decodeAnswers js u of
        None \<Rightarrow> errorLine
      | Some v \<Rightarrow>
          (case entriesOf js v of
             None \<Rightarrow> errorLine
           | Some es \<Rightarrow>
               (case entryLines js es of (t, done) \<Rightarrow> if done then t else t @ errorLine)))"

text \<open>Lines 128 to 140, one iteration of the loop over \<^verbatim>\<open>recentUpdates\<close>.\<close>

definition recentEntry :: "'j builtins \<Rightarrow> TeamMemberUpdate \<Rightarrow> string" where
  "recentEntry js u =
     nl @ clock @ '' '' @ toLocaleString js (timestamp u) @ nl @ answersText js u"

text \<open>Lines 147 to 159, one iteration of the loop of the fallback.\<close>

definition rawEntry :: "'j builtins \<Rightarrow> TeamMemberUpdate \<Rightarrow> string" where
  "rawEntry js u =
     ''Update from '' @ toLocaleString js (timestamp u) @ '':'' @ nl @ answersText js u"

text \<open>Line 126: \<^verbatim>\<open>memberUpdates.slice(0, 3)\<close>.\<close>

definition recentUpdates :: "TeamMemberUpdate list \<Rightarrow> TeamMemberUpdate list" where
  "recentUpdates memberUpdates = take 3 memberUpdates"

text \<open>
  Lines 122 to 141: what the \<^verbatim>\<open>try\<close> block appends once \<^verbatim>\<open>useModel\<close> has returned.
  Nothing in it throws outside the inner \<^verbatim>\<open>try\<close>.
\<close>

definition analysisText :: "'j builtins \<Rightarrow> string \<Rightarrow> TeamMemberUpdate list \<Rightarrow> string" where
  "analysisText js analysis memberUpdates =
     clipboard @ '' **Productivity Analysis**:'' @ nl @ analysis @ nl @ nl
     @ calendar @ '' **Recent Updates**:'' @ nl
     @ concat (map (recentEntry js) (recentUpdates memberUpdates))"

text \<open>Lines 144 to 160: what the \<^verbatim>\<open>catch\<close> block appends.\<close>

definition fallbackText :: "'j builtins \<Rightarrow> TeamMemberUpdate list \<Rightarrow> string" where
  "fallbackText js memberUpdates =
     crossMark @ '' Error generating analysis. Showing raw updates:'' @ nl @ nl
     @ concat (map (rawEntry js) memberUpdates)"

definition separator :: string where
  "separator = nl @ ''-------------------'' @ nl @ nl"

text \<open>
  Lines 76 to 162, one iteration of the loop over the team members: the text appended to
  \<^verbatim>\<open>report\<close>, when \<open>n\<close> calls of \<^verbatim>\<open>useModel\<close> were made before.
\<close>

definition memberSection ::
  "runtime \<Rightarrow> 'j builtins \<Rightarrow> nat \<Rightarrow> string \<times> TeamMemberUpdate list \<Rightarrow> string" where
  "memberSection rt js n entry =
     (case entry of (key, memberUpdates) \<Rightarrow>
        let name = memberName memberUpdates;
            processedUpdates = map (processUpdate js) memberUpdates;
            prompt = analysisPrompt js processedUpdates
        in memberHeader name key
           @ (case useModel rt n prompt of
                Inr analysis \<Rightarrow> analysisText js analysis memberUpdates
              | Inl e \<Rightarrow> fallbackText js memberUpdates)
           @ separator)"

text \<open>Lines 75 to 163: the loop; each iteration makes one call of \<^verbatim>\<open>useModel\<close>.\<close>

fun reportSections ::
  "runtime \<Rightarrow> 'j builtins \<Rightarrow> nat \<Rightarrow> (string \<times> TeamMemberUpdate list) list \<Rightarrow> string" where
  "reportSections rt js n [] = []"
| "reportSections rt js n (entry # rest) =
     memberSection rt js n entry @ reportSections rt js (Suc n) rest"

text \<open>
  \<^verbatim>\<open>generateTeamReport(runtime, standupType, roomId)\<close>, when \<open>n\<close> calls of
  \<^verbatim>\<open>useModel\<close> were made before. \<open>Inl\<close> is the rejected promise: the outer
  \<^verbatim>\<open>catch\<close> of line 168 throws the error again. The parameter \<^verbatim>\<open>roomId\<close> and the
  value of \<^verbatim>\<open>createUniqueUuid\<close> are not used by the code, and the logger is left out.
\<close>

definition generateTeamReport :: "runtime \<Rightarrow> 'j builtins \<Rightarrow> string \<Rightarrow> nat \<Rightarrow> error + string" where
  "generateTeamReport rt js standupType n =
     (case getMemories rt of
        Inl e \<Rightarrow> Inl e
      | Inr memories \<Rightarrow>
          let updates = matchingUpdates js standupType memories;
              report = heading standupType
          in if updates = [] then Inr (report @ noUpdatesLine standupType)
             else (case memberEntries updates of
                     Inl e \<Rightarrow> Inl e
                   | Inr entries \<Rightarrow> Inr (report @ reportSections rt js n entries)))"

section \<open>The handler of the action GENERATE_REPORT\<close>

text \<open>
  The handler's \<^verbatim>\<open>state\<close>, as far as the code reads it: \<^verbatim>\<open>state.standupType\<close>, cast
  to a string by the code, absent when \<open>None\<close>. The field is named \<open>standupType'\<close>
  here, \<open>standupType\<close> being the handler's local variable.
\<close>

record State =
  standupType' :: "string option"

text \<open>
  The delivery callback: \<open>callback k t\<close> is the outcome of
  \<^verbatim>\<open>await callback({text: t, source: 'discord'}, [])\<close> when \<open>k\<close> invocations were made
  before; \<open>None\<close> when it completes, \<open>Some e\<close> when it throws \<open>e\<close>.
\<close>

type_synonym HandlerCallback = "nat \<Rightarrow> string \<Rightarrow> error option"

text \<open>
  What one execution of the handler did: the value of its promise (\<open>Inl\<close> when it is
  rejected), the texts handed to the callback, in order (an invocation that threw is
  listed too), and the \<^verbatim>\<open>standupType\<close> arguments of the calls of
  \<^verbatim>\<open>generateTeamReport\<close>.
\<close>

record outcome =
  returned :: "error + bool"
  delivered :: "string list"
  generated :: "string list"

definition invoke :: "HandlerCallback \<Rightarrow> string list \<Rightarrow> string \<Rightarrow> string list \<times> error option" where
  "invoke callback deliveredBefore t = (deliveredBefore @ [t], callback (length deliveredBefore) t)"

text \<open>Lines 214 to 218.\<close>

definition classificationPrompt :: "string \<Rightarrow> string" where
  "classificationPrompt t =
     ''Extract the standup type from this text. Try to understand the sentence and its context.''
     @ nl
     @ ''        Return one of these values: STANDUP, SPRINT, MENTAL_HEALTH, PROJECT_STATUS, RETRO.''
     @ nl
     @ ''        If you can't determine a specific type, use STANDUP as default.'' @ nl
     @ ''        '' @ nl
     @ ''        Text: '' @ dquote @ t @ dquote"

text \<open>Lines 229 to 234.\<close>

definition selectTypeTemplate :: string where
  "selectTypeTemplate =
     ''Please select a check-in type:'' @ nl
     @ ''          - Daily Standup (STANDUP)'' @ nl
     @ ''          - Sprint Check-in (SPRINT) '' @ nl
     @ ''          - Mental Health Check-in (MENTAL_HEALTH)'' @ nl
     @ ''          - Project Status Update (PROJECT_STATUS)'' @ nl
     @ ''          - Team Retrospective (RETRO)''"

text \<open>Line 252.\<close>

definition validTypes :: "string list" where
  "validTypes = [''standup'', ''sprint'', ''mental_health'', ''project_status'', ''retro'']"

text \<open>Line 258.\<close>

definition invalidTypeText :: string where
  "invalidTypeText =
     ''Invalid check-in type. Please select one of: Daily Standup, Sprint Check-in, ''
     @ ''Mental Health Check-in, Project Status Update, or Team Retrospective''"

text \<open>Line 269.\<close>

definition notUnderstoodText :: string where
  "notUnderstoodText =
     ''I couldn't understand the check-in type. Please try again with a valid type.''"

text \<open>Line 299.\<close>

definition errorOccurredText :: string where
  "errorOccurredText =
     crossMark @ '' An error occurred while generating the report. Please try again.''"

text \<open>
  The outer \<^verbatim>\<open>catch\<close> (lines 288 to 305), entered with the caught value and with a
  callback at hand. Line 292 reads \<^verbatim>\<open>err.name\<close>: on \<^verbatim>\<open>null\<close> or \<^verbatim>\<open>undefined\<close>
  this throws a \<^verbatim>\<open>TypeError\<close> inside the \<^verbatim>\<open>catch\<close>, the handler's promise is
  rejected and the callback of line 302 is not reached. On any other value the block
  invokes the callback and returns \<^verbatim>\<open>false\<close>; when the callback throws here, the
  handler's promise is rejected.
\<close>

definition outerCatch ::
  "HandlerCallback \<Rightarrow> error \<Rightarrow> string list \<Rightarrow> string list \<Rightarrow> outcome" where
  "outerCatch callback err deliveredBefore generatedBefore =
     (if err = ThrownNullish then
        \<lparr>returned = Inl TypeError, delivered = deliveredBefore, generated = generatedBefore\<rparr>
      else
        (case invoke callback deliveredBefore errorOccurredText of
           (d, r) \<Rightarrow>
             \<lparr>returned = (case r of None \<Rightarrow> Inr False | Some e \<Rightarrow> Inl e),
              delivered = d, generated = generatedBefore\<rparr>))"

text \<open>
  The inner \<^verbatim>\<open>catch\<close> (lines 265 to 275): it reads no property of the caught value,
  invokes the callback and returns \<^verbatim>\<open>false\<close>; a throw of the callback here reaches
  the outer \<^verbatim>\<open>catch\<close>.
\<close>

definition innerCatch :: "HandlerCallback \<Rightarrow> string list \<Rightarrow> outcome" where
  "innerCatch callback deliveredBefore =
     (case invoke callback deliveredBefore notUnderstoodText of
        (d, r) \<Rightarrow>
          (case r of
             None \<Rightarrow> \<lparr>returned = Inr False, delivered = d, generated = []\<rparr>
           | Some e \<Rightarrow> outerCatch callback e d []))"

text \<open>
  Lines 277 to 287, after the inner \<^verbatim>\<open>try\<close>: the report is generated (one call of
  \<^verbatim>\<open>useModel\<close> was made before) and delivered.
\<close>

definition deliverReport ::
  "runtime \<Rightarrow> 'j builtins \<Rightarrow> HandlerCallback \<Rightarrow> string \<Rightarrow> outcome" where
  "deliverReport rt js callback standupType =
     (case generateTeamReport rt js standupType 1 of
        Inl e \<Rightarrow> outerCatch callback e [] [standupType]
      | Inr report \<Rightarrow>
          (case invoke callback [] report of
             (d, r) \<Rightarrow>
               (case r of
                  None \<Rightarrow> \<lparr>returned = Inr True, delivered = d, generated = [standupType]\<rparr>
                | Some e \<Rightarrow> outerCatch callback e d [standupType])))"

text \<open>
  Line 244: \<^verbatim>\<open>((state.standupType as string) || parsedType)?.toLowerCase()?.trim()\<close>.
\<close>

definition normalizedType :: "'j builtins \<Rightarrow> State \<Rightarrow> string \<Rightarrow> string" where
  "normalizedType js state parsedType =
     trim js (toLowerCase js (orElse (standupType' state) parsedType))"

text \<open>
  Lines 213 to 287: the inner \<^verbatim>\<open>try\<close> and what follows it, for a message text
  \<open>t\<close>. The classification is the first call of \<^verbatim>\<open>useModel\<close>. The invocations of
  the callback at lines 240 and 256 are inside the inner \<^verbatim>\<open>try\<close>: when one throws,
  the inner \<^verbatim>\<open>catch\<close> runs.
\<close>

definition classifyAndReport ::
  "runtime \<Rightarrow> 'j builtins \<Rightarrow> string \<Rightarrow> State \<Rightarrow> HandlerCallback \<Rightarrow> outcome" where
  "classifyAndReport rt js t state callback =
     (case useModel rt 0 (classificationPrompt t) of
        Inl aiError \<Rightarrow> innerCatch callback []
      | Inr parsedType \<Rightarrow>
          if \<not> truthy (standupType' state) \<and> parsedType = [] then
            (case invoke callback [] selectTypeTemplate of
               (d, r) \<Rightarrow>
                 (case r of
                    None \<Rightarrow> \<lparr>returned = Inr True, delivered = d, generated = []\<rparr>
                  | Some e \<Rightarrow> innerCatch callback d))
          else
            let standupType = normalizedType js state parsedType;
                isValidType = list_ex (\<lambda>type. standupType = type) validTypes
            in if \<not> isValidType then
                 (case invoke callback [] invalidTypeText of
                    (d, r) \<Rightarrow>
                      (case r of
                         None \<Rightarrow> \<lparr>returned = Inr False, delivered = d, generated = []\<rparr>
                       | Some e \<Rightarrow> innerCatch callback d))
               else deliverReport rt js callback standupType)"

text \<open>Line 205: \<^verbatim>\<open>message.content?.text\<close>.\<close>

definition messageText :: "Memory \<Rightarrow> string option" where
  "messageText message = (case content message of None \<Rightarrow> None | Some c \<Rightarrow> text' c)"

text \<open>
  \<^verbatim>\<open>generateReport.handler(runtime, message, state, options, callback)\<close>; \<^verbatim>\<open>options\<close>
  is not used. The three early returns of lines 198, 199 and 206 invoke nothing.
\<close>

definition handler ::
  "runtime \<Rightarrow> 'j builtins \<Rightarrow> Memory \<Rightarrow> State option \<Rightarrow> HandlerCallback option \<Rightarrow> outcome" where
  "handler rt js message state callback =
     (case state of
        None \<Rightarrow> \<lparr>returned = Inr False, delivered = [], generated = []\<rparr>
      | Some st \<Rightarrow>
          (case callback of
             None \<Rightarrow> \<lparr>returned = Inr False, delivered = [], generated = []\<rparr>
           | Some cb \<Rightarrow>
               (case messageText message of
                  None \<Rightarrow> \<lparr>returned = Inr False, delivered = [], generated = []\<rparr>
                | Some t \<Rightarrow>
                    if t = [] then \<lparr>returned = Inr False, delivered = [], generated = []\<rparr>
                    else classifyAndReport rt js t st cb)))"

section \<open>Notions used to state the properties\<close>

text \<open>The elements of a list in the order of their first occurrence.\<close>

fun firstSeen :: "'a list \<Rightarrow> 'a list" where
  "firstSeen [] = []"
| "firstSeen (x # xs) = x # firstSeen (filter (\<lambda>y. y \<noteq> x) xs)"

text \<open>
  \<open>laterThan js b a\<close>: both timestamps parse and the one of \<open>b\<close> is the later one.
  A list is in descending order of timestamp when no element stands before one that is
  later than it.
\<close>

definition laterThan :: "'j builtins \<Rightarrow> TeamMemberUpdate \<Rightarrow> TeamMemberUpdate \<Rightarrow> bool" where
  "laterThan js b a =
     (case getTime js (timestamp b) of
        None \<Rightarrow> False
      | Some tb \<Rightarrow> (case getTime js (timestamp a) of None \<Rightarrow> False | Some ta \<Rightarrow> ta < tb))"

definition parsedTimestamp :: "'j builtins \<Rightarrow> TeamMemberUpdate \<Rightarrow> bool" where
  "parsedTimestamp js u = (getTime js (timestamp u) \<noteq> None)"

text \<open>The array stored under a key of \<^verbatim>\<open>updatesByMember\<close>, empty when there is none.\<close>

definition groupOf :: "memberGroups \<Rightarrow> string \<Rightarrow> TeamMemberUpdate list" where
  "groupOf groups key = (case map_of groups key of None \<Rightarrow> [] | Some us \<Rightarrow> us)"

section \<open>Concrete inputs\<close>

text \<open>
  An instance of the built-ins for the examples below. It agrees with JavaScript on the
  strings that occur in them: ASCII letters and blanks, three ISO timestamps and one text
  that is no date, two JSON texts and one text that is no JSON. The values that
  \<^verbatim>\<open>JSON.parse\<close> returns are objects with string values, and strings.
  \<open>toLocaleString\<close> depends on the locale and \<open>JSON_stringify\<close> only feeds the prompt;
  both are stand-ins. \<open>engineSortOrder\<close> leaves an array in place: so does the sort of
  V8 with the two arrays of the examples that hold an update of no date (one such update
  alone; the dates 1, none, 5), every comparison with that update giving \<open>0\<close>, so that
  the array is one ascending run.
\<close>

datatype exampleJson = JObject "(string \<times> string) list" | JString string

fun decimalText :: "nat \<Rightarrow> string" where
  "decimalText n =
     (if n < 10 then [char_of (48 + n)] else decimalText (n div 10) @ [char_of (48 + n mod 10)])"

declare decimalText.simps [simp del]

definition asciiLower :: "string \<Rightarrow> string" where
  "asciiLower s =
     map (\<lambda>c. if c \<in> set ''ABCDEFGHIJKLMNOPQRSTUVWXYZ'' then char_of (of_char c + (32::nat))
              else c) s"

definition asciiTrim :: "string \<Rightarrow> string" where
  "asciiTrim s = rev (dropWhile (\<lambda>c. c = CHR '' '') (rev (dropWhile (\<lambda>c. c = CHR '' '') s)))"

definition t1 :: string where "t1 = ''1970-01-01T00:00:00.001Z''"
definition t2 :: string where "t2 = ''1970-01-01T00:00:00.002Z''"
definition t5 :: string where "t5 = ''1970-01-01T00:00:00.005Z''"

definition exampleGetTime :: "string \<Rightarrow> int option" where
  "exampleGetTime ts =
     (if ts = t1 then Some 1 else if ts = t2 then Some 2 else if ts = t5 then Some 5 else None)"

definition doneTests :: string where
  "doneTests = ''{'' @ dquote @ ''done'' @ dquote @ '':'' @ dquote @ ''tests'' @ dquote @ ''}''"

definition exampleParse :: "string \<Rightarrow> exampleJson option" where
  "exampleParse s =
     (if s = ''{}'' then Some (JObject [])
      else if s = doneTests then Some (JObject [(''done'', ''tests'')])
      else None)"

fun exampleEntries :: "exampleJson \<Rightarrow> (string \<times> exampleJson) list option" where
  "exampleEntries (JObject kvs) = Some (map (\<lambda>(k, v). (k, JString v)) kvs)"
| "exampleEntries (JString s) =
     Some (map (\<lambda>(i, c). (decimalText i, JString [c])) (enumerate 0 s))"

fun exampleToStr :: "exampleJson \<Rightarrow> string option" where
  "exampleToStr (JString s) = Some s"
| "exampleToStr (JObject kvs) = Some ''[object Object]''"

definition exampleBuiltins :: "exampleJson builtins" where
  "exampleBuiltins =
     \<lparr>toLowerCase = asciiLower, trim = asciiTrim, getTime = exampleGetTime,
      toLocaleString = (\<lambda>ts. case exampleGetTime ts of None \<Rightarrow> ''Invalid Date'' | Some t \<Rightarrow> ts),
      JSON_parse = exampleParse, Object_entries = exampleEntries, toStr = exampleToStr,
      JSON_stringify = (\<lambda>ps. ''[...]''), engineSortOrder = (\<lambda>xs. [0..<length xs])\<rparr>"

definition exampleUpdate :: "string \<Rightarrow> string \<Rightarrow> string option \<Rightarrow> TeamMemberUpdate" where
  "exampleUpdate key ts ans =
     \<lparr>teamMemberId = key, teamMemberName = Some (''member '' @ key), serverName = None,
      checkInType = ''STANDUP'', timestamp = ts, answers = ans\<rparr>"

definition exampleMemory :: "TeamMemberUpdate \<Rightarrow> Memory" where
  "exampleMemory u =
     \<lparr>content = Some \<lparr>text' = None, type = Some ''team-member-update'', update = Some u\<rparr>,
      roomId = ''room''\<rparr>"

text \<open>A stored chat message that is no team member update.\<close>

definition chatMemory :: Memory where
  "chatMemory =
     \<lparr>content = Some \<lparr>text' = Some ''hello'', type = None, update = None\<rparr>, roomId = ''room''\<rparr>"

text \<open>The message that asks for a report.\<close>

definition requestMessage :: "string \<Rightarrow> Memory" where
  "requestMessage t =
     \<lparr>content = Some \<lparr>text' = Some t, type = None, update = None\<rparr>, roomId = ''room''\<rparr>"

text \<open>
  A runtime whose store holds the given memories, whose first answer (the classification)
  is the given text and whose later answers are an analysis; and one whose text
  generation always fails.
\<close>

definition exampleRuntime :: "string \<Rightarrow> Memory list \<Rightarrow> runtime" where
  "exampleRuntime classification memories =
     \<lparr>getMemories = Inr memories,
      useModel = (\<lambda>n prompt. if n = 0 then Inr classification else Inr ''On track.'')\<rparr>"

definition failingModel :: "Memory list \<Rightarrow> runtime" where
  "failingModel memories =
     \<lparr>getMemories = Inr memories, useModel = (\<lambda>n prompt. Inl (Thrown ''model unavailable''))\<rparr>"

definition reliableCallback :: HandlerCallback where
  "reliableCallback k t = None"

text \<open>Two members whose identifiers are array indices; the newer update is of member 2.\<close>

definition numericIdUpdates :: "TeamMemberUpdate list" where
  "numericIdUpdates = [exampleUpdate ''2'' t2 None, exampleUpdate ''1'' t1 None]"

text \<open>One member, three updates as the store returns them; the second carries no date.\<close>

definition gapUpdates :: "TeamMemberUpdate list" where
  "gapUpdates =
     [exampleUpdate ''ann'' t1 None, exampleUpdate ''ann'' ''garbage'' None,
      exampleUpdate ''ann'' t5 None]"

text \<open>
  Two members; the store returns the updates in no order. The older update of bob has
  answers that are no JSON.
\<close>

definition teamUpdates :: "TeamMemberUpdate list" where
  "teamUpdates =
     [exampleUpdate ''bob'' t1 (Some ''not json''), exampleUpdate ''ann'' t2 (Some ''{}''),
      exampleUpdate ''bob'' t5 (Some doneTests)]"

definition sortedTeamUpdates :: "TeamMemberUpdate list" where
  "sortedTeamUpdates =
     [exampleUpdate ''bob'' t5 (Some doneTests), exampleUpdate ''ann'' t2 (Some ''{}''),
      exampleUpdate ''bob'' t1 (Some ''not json'')]"

text \<open>
  One member with four updates, two of them of the same time; and the same updates in
  descending order of timestamp.
\<close>

definition busyUpdates :: "TeamMemberUpdate list" where
  "busyUpdates =
     [exampleUpdate ''ann'' t1 None, exampleUpdate ''ann'' t5 (Some doneTests),
      exampleUpdate ''ann'' t2 (Some ''{}''), exampleUpdate ''ann'' t2 None]"

definition sortedBusyUpdates :: "TeamMemberUpdate list" where
  "sortedBusyUpdates =
     [exampleUpdate ''ann'' t5 (Some doneTests), exampleUpdate ''ann'' t2 (Some ''{}''),
      exampleUpdate ''ann'' t2 None, exampleUpdate ''ann'' t1 None]"

text \<open>The entries of \<open>sortedTeamUpdates\<close>: the section of bob, then the section of ann.\<close>

definition bobUpdates :: "TeamMemberUpdate list" where
  "bobUpdates =
     [exampleUpdate ''bob'' t5 (Some doneTests), exampleUpdate ''bob'' t1 (Some ''not json'')]"

definition annUpdates :: "TeamMemberUpdate list" where
  "annUpdates = [exampleUpdate ''ann'' t2 (Some ''{}'')]"

section \<open>Sorting\<close>

lemma mset_insertSorted: "mset (insertSorted cmp x ys) = add_mset x (mset ys)"
  by (induction ys) auto

lemma mset_insertionSort: "mset (foldr (insertSorted cmp) xs []) = mset xs"
  by (induction xs) (auto simp: mset_insertSorted)

lemma mset_rearrange: "mset (rearrange order xs) = mset xs"
proof (cases "sort order = [0..<length xs]")
  case True
  have "mset order = mset (sort order)"
    by simp
  also have "\<dots> = mset [0..<length xs]"
    using True by simp
  finally have "image_mset (\<lambda>i. xs ! i) (mset order) = image_mset (\<lambda>i. xs ! i) (mset [0..<length xs])"
    by simp
  then have "mset (map (\<lambda>i. xs ! i) order) = mset (map (\<lambda>i. xs ! i) [0..<length xs])"
    by simp
  then show ?thesis
    using True by (simp add: rearrange_def map_nth)
next
  case False
  then show ?thesis by (simp add: rearrange_def)
qed

lemma mset_arraySort: "mset (arraySort order cmp xs) = mset xs"
  by (simp add: arraySort_def mset_rearrange mset_insertionSort)

lemma set_arraySort: "set (arraySort order cmp xs) = set xs"
  using mset_arraySort [of order cmp xs] by (metis set_mset_mset)

lemma set_insertSorted: "set (insertSorted cmp x ys) = insert x (set ys)"
  by (induction ys) auto

lemma set_insertionSort: "set (foldr (insertSorted cmp) xs []) = set xs"
  by (induction xs) (auto simp: set_insertSorted)

text \<open>The comparator of line 50 gives a number wherever both timestamps parse.\<close>

lemma comparable_compareFn:
  assumes "\<forall>u \<in> set xs. getTime js (timestamp u) \<noteq> None"
  shows "comparable (compareFn js) xs"
  using assms by (auto simp: comparable_def compareFn_def list_all_iff split: option.splits)

lemma sorted_insertSorted:
  assumes "\<forall>u \<in> set (x # ys). getTime js (timestamp u) \<noteq> None"
    and "sorted_wrt (\<lambda>a b. \<not> laterThan js b a) ys"
  shows "sorted_wrt (\<lambda>a b. \<not> laterThan js b a) (insertSorted (compareFn js) x ys)"
  using assms
  by (induction ys)
     (auto simp: set_insertSorted laterThan_def compareFn_def sortOrder_def split: option.splits)

lemma sorted_insertionSort:
  assumes "\<forall>u \<in> set xs. getTime js (timestamp u) \<noteq> None"
  shows "sorted_wrt (\<lambda>a b. \<not> laterThan js b a) (foldr (insertSorted (compareFn js)) xs [])"
  using assms
proof (induction xs)
  case Nil
  then show ?case by simp
next
  case (Cons x xs)
  have step: "foldr (insertSorted (compareFn js)) (x # xs) []
                = insertSorted (compareFn js) x (foldr (insertSorted (compareFn js)) xs [])"
    by simp
  have parsed: "\<forall>u \<in> set (x # foldr (insertSorted (compareFn js)) xs []).
                  getTime js (timestamp u) \<noteq> None"
    using Cons.prems by (simp add: set_insertionSort)
  have "sorted_wrt (\<lambda>a b. \<not> laterThan js b a) (foldr (insertSorted (compareFn js)) xs [])"
    using Cons by simp
  with parsed show ?case
    unfolding step by (rule sorted_insertSorted)
qed

lemma sorted_arraySort:
  assumes "\<forall>u \<in> set xs. getTime js (timestamp u) \<noteq> None"
  shows "sorted_wrt (\<lambda>a b. \<not> laterThan js b a) (arraySort order (compareFn js) xs)"
  using comparable_compareFn [OF assms] sorted_insertionSort [OF assms]
  by (simp add: arraySort_def)

section \<open>Grouping\<close>

lemma set_firstSeen: "set (firstSeen xs) = set xs"
  by (induction xs rule: firstSeen.induct) auto

lemma distinct_firstSeen: "distinct (firstSeen xs)"
  by (induction xs rule: firstSeen.induct) (auto simp: set_firstSeen)

lemma map_of_Some_key: "map_of groups key = Some us \<Longrightarrow> key \<in> fst ` set groups"
  by (metis map_of_eq_None_iff option.distinct(1))

lemma map_of_None_key: "key \<notin> fst ` set groups \<Longrightarrow> map_of groups key = None"
  by (simp add: map_of_eq_None_iff)

lemma map_of_None_pair: "map_of groups key = None \<Longrightarrow> (key, us) \<in> set groups \<Longrightarrow> False"
  by (force simp: map_of_eq_None_iff)

lemma keys_pushUpdate: "map fst (pushUpdate groups key u) = map fst groups"
  by (induction groups) (auto simp: pushUpdate_def)

lemma map_of_pushUpdate:
  "map_of (pushUpdate groups key u) k
     = (if k = key then map_option (\<lambda>us. us @ [u]) (map_of groups key) else map_of groups k)"
  by (induction groups) (auto simp: pushUpdate_def)

lemma groupOf_pushUpdate:
  "groupOf (pushUpdate groups key u) k
     = (if k = key \<and> key \<in> set (map fst groups) then groupOf groups k @ [u] else groupOf groups k)"
  by (auto simp: groupOf_def map_of_pushUpdate map_of_None_key
           dest: map_of_Some_key map_of_None_pair split: option.splits)

lemma groupOf_append_new:
  "key \<notin> set (map fst groups) \<Longrightarrow> groupOf (groups @ [(key, [])]) k = groupOf groups k"
  by (auto simp: groupOf_def map_add_def map_of_None_key
           dest: map_of_Some_key map_of_None_pair split: option.splits)

lemma groupStep_keys:
  assumes "groupStep groups u = Inr groups'"
  shows "map fst groups'
           = (if teamMemberId u \<in> set (map fst groups) then map fst groups
              else map fst groups @ [teamMemberId u])"
  using assms
  by (auto simp: groupStep_def Let_def keys_pushUpdate map_of_None_key
           dest: map_of_Some_key map_of_None_pair split: option.splits if_splits)

lemma groupStep_groupOf:
  assumes "groupStep groups u = Inr groups'"
  shows "groupOf groups' k = groupOf groups k @ (if teamMemberId u = k then [u] else [])"
proof (cases "map_of groups (teamMemberId u)")
  case None
  then have new: "teamMemberId u \<notin> set (map fst groups)"
    by (simp add: map_of_eq_None_iff)
  from None assms have "groups' = pushUpdate (groups @ [(teamMemberId u, [])]) (teamMemberId u) u"
    by (auto simp: groupStep_def Let_def split: if_splits)
  then show ?thesis
    using new by (simp add: groupOf_pushUpdate groupOf_append_new)
next
  case (Some us)
  then have old: "teamMemberId u \<in> set (map fst groups)"
    by (auto dest: map_of_Some_key)
  from Some assms have "groups' = pushUpdate groups (teamMemberId u) u"
    by (auto simp: groupStep_def Let_def)
  then show ?thesis
    using old by (simp add: groupOf_pushUpdate)
qed

lemma groupLoop_keys:
  assumes "groupLoop us groups = Inr groups'"
  shows "map fst groups'
           = map fst groups
             @ firstSeen (filter (\<lambda>k. k \<notin> set (map fst groups)) (map teamMemberId us))"
  using assms
proof (induction us arbitrary: groups)
  case Nil
  then show ?case by simp
next
  case (Cons u us)
  then obtain mid where step: "groupStep groups u = Inr mid" and rest: "groupLoop us mid = Inr groups'"
    by (auto split: sum.splits)
  note ih = Cons.IH [OF rest]
  show ?case
  proof (cases "teamMemberId u \<in> set (map fst groups)")
    case True
    with groupStep_keys [OF step] have "map fst mid = map fst groups" by simp
    with ih True show ?thesis by simp
  next
    case False
    with groupStep_keys [OF step] have "map fst mid = map fst groups @ [teamMemberId u]" by simp
    moreover have "filter (\<lambda>k. k \<notin> set (map fst groups @ [teamMemberId u])) (map teamMemberId us)
            = filter (\<lambda>k. k \<noteq> teamMemberId u)
                (filter (\<lambda>k. k \<notin> set (map fst groups)) (map teamMemberId us))"
      by (induction us) auto
    ultimately show ?thesis
      using ih False by simp
  qed
qed

lemma groupLoop_groupOf:
  assumes "groupLoop us groups = Inr groups'"
  shows "groupOf groups' k = groupOf groups k @ filter (\<lambda>u. teamMemberId u = k) us"
  using assms
proof (induction us arbitrary: groups)
  case Nil
  then show ?case by simp
next
  case (Cons u us)
  then obtain mid where step: "groupStep groups u = Inr mid" and rest: "groupLoop us mid = Inr groups'"
    by (auto split: sum.splits)
  show ?case
    using Cons.IH [OF rest] groupStep_groupOf [OF step, of k] by simp
qed

lemma groupByMember_keys:
  "groupByMember updates = Inr groups \<Longrightarrow> map fst groups = firstSeen (map teamMemberId updates)"
  using groupLoop_keys [of updates "[]" groups] by (simp add: groupByMember_def)

lemma groupByMember_entry:
  assumes "groupByMember updates = Inr groups" and "(key, us) \<in> set groups"
  shows "us = filter (\<lambda>u. teamMemberId u = key) updates"
proof -
  have "distinct (map fst groups)"
    using groupByMember_keys [OF assms(1)] by (simp add: distinct_firstSeen)
  with assms(2) have "map_of groups key = Some us" by simp
  then have "groupOf groups key = us" by (simp add: groupOf_def)
  moreover have "groupOf groups key = filter (\<lambda>u. teamMemberId u = key) updates"
    using groupLoop_groupOf [of updates "[]" groups key] assms(1)
    by (simp add: groupByMember_def groupOf_def)
  ultimately show ?thesis by simp
qed

text \<open>
  The grouping throws only on an identifier that is a property name of
  \<^verbatim>\<open>Object.prototype\<close>.
\<close>

lemma groupLoop_succeeds:
  assumes "list_all (\<lambda>u. teamMemberId u \<notin> set objectPrototypeKeys) updates"
  shows "\<exists>groups. groupLoop updates start = Inr groups"
  using assms
proof (induction updates arbitrary: start)
  case Nil
  then show ?case by simp
next
  case (Cons u us)
  then have "\<exists>mid. groupStep start u = Inr mid"
    by (simp add: groupStep_def Let_def split: option.splits)
  then obtain mid where "groupStep start u = Inr mid" ..
  with Cons show ?case by simp
qed

lemma keys_objectEntries:
  "map fst (objectEntries props)
     = sort_key decimalValue (filter isArrayIndex (map fst props))
       @ filter (\<lambda>k. \<not> isArrayIndex k) (map fst props)"
proof -
  have "map fst (sort_key (\<lambda>p. decimalValue (fst p)) ps) = sort_key decimalValue (map fst ps)"
    for ps :: "(string \<times> 'a) list"
  proof (induction ps)
    case Nil
    then show ?case by simp
  next
    case (Cons p ps)
    have "map fst (insort_key (\<lambda>p. decimalValue (fst p)) q qs)
            = insort_key decimalValue (fst q) (map fst qs)"
      for q :: "string \<times> 'a" and qs
      by (induction qs) simp_all
    with Cons show ?case by simp
  qed
  then show ?thesis
    by (simp add: objectEntries_def filter_map comp_def)
qed

lemma set_objectEntries: "set (objectEntries props) = set props"
  by (auto simp: objectEntries_def)

lemma distinct_keys_objectEntries:
  "distinct (map fst props) \<Longrightarrow> distinct (map fst (objectEntries props))"
  by (auto simp: keys_objectEntries)

lemma memberEntries_groups:
  assumes "memberEntries updates = Inr entries"
  obtains groups where "groupByMember updates = Inr groups" and "entries = objectEntries groups"
  using assms by (auto simp: memberEntries_def split: sum.splits)

lemma memberEntries_Nil: "memberEntries [] = Inr []"
  by (simp add: memberEntries_def groupByMember_def objectEntries_def)

section \<open>The report\<close>

lemma reportSections_append:
  "reportSections rt js n (es1 @ es2)
     = reportSections rt js n es1 @ reportSections rt js (n + length es1) es2"
  by (induction es1 arbitrary: n) simp_all

text \<open>
  When the store answers and the grouping does not throw, the report is returned: its
  heading, then the sections of the members in the order of \<open>memberEntries\<close>.
\<close>

lemma generateTeamReport_sections:
  assumes "getMemories rt = Inr memories"
    and "memberEntries (matchingUpdates js standupType memories) = Inr (before @ entry # after)"
  shows "generateTeamReport rt js standupType n
           = Inr (heading standupType
                  @ reportSections rt js n before
                  @ memberSection rt js (n + length before) entry
                  @ reportSections rt js (Suc (n + length before)) after)"
proof -
  have "matchingUpdates js standupType memories \<noteq> []"
    using assms(2) memberEntries_Nil by auto
  with assms show ?thesis
    by (simp add: generateTeamReport_def Let_def reportSections_append)
qed

text \<open>
  The report is returned whenever the store answers and no identifier is a property name
  of \<^verbatim>\<open>Object.prototype\<close>, whatever the text generation and the decoding of the
  answers do.
\<close>

lemma memberEntries_returns:
  assumes "list_all (\<lambda>u. teamMemberId u \<notin> set objectPrototypeKeys) updates"
  shows "\<exists>entries. memberEntries updates = Inr entries"
  using groupLoop_succeeds [OF assms, of "[]"]
  by (auto simp: memberEntries_def groupByMember_def)

lemma generateTeamReport_returns:
  assumes "getMemories rt = Inr memories"
    and "list_all (\<lambda>u. teamMemberId u \<notin> set objectPrototypeKeys)
           (matchingUpdates js standupType memories)"
  shows "\<exists>report. generateTeamReport rt js standupType n = Inr report"
  using assms(1) memberEntries_returns [OF assms(2)]
  by (auto simp: generateTeamReport_def Let_def)

text \<open>
  The errors of \<^verbatim>\<open>generateTeamReport\<close>: the rejection of the store, thrown again as
  it is, and the \<^verbatim>\<open>TypeError\<close> of the grouping.
\<close>

lemma groupLoop_error: "groupLoop updates groups = Inl e \<Longrightarrow> e = TypeError"
  by (induction updates arbitrary: groups)
     (auto simp: groupStep_def Let_def split: sum.splits option.splits if_splits)

lemma generateTeamReport_error:
  assumes "generateTeamReport rt js standupType n = Inl e"
  shows "getMemories rt = Inl e \<or> e = TypeError"
  using assms
  by (auto simp: generateTeamReport_def Let_def memberEntries_def groupByMember_def
           dest: groupLoop_error split: sum.splits if_splits)

lemma decodeAnswers_malformed:
  "answers u = Some a \<Longrightarrow> a \<noteq> [] \<Longrightarrow> JSON_parse js a = None \<Longrightarrow> decodeAnswers js u = None"
  by (simp add: decodeAnswers_def)

section \<open>The concrete inputs, evaluated\<close>

lemma matchingUpdates_teamUpdates:
  "matchingUpdates exampleBuiltins ''sprint'' (map exampleMemory teamUpdates) = sortedTeamUpdates"
  by code_simp

lemma memberEntries_sortedTeamUpdates:
  "memberEntries sortedTeamUpdates
     = Inr [(''bob'', [exampleUpdate ''bob'' t5 (Some doneTests),
                      exampleUpdate ''bob'' t1 (Some ''not json'')]),
            (''ann'', [exampleUpdate ''ann'' t2 (Some ''{}'')])]"
  by code_simp

section \<open>The handler\<close>

text \<open>
  When the store rejects with \<^verbatim>\<open>null\<close> or \<^verbatim>\<open>undefined\<close>, the outer \<^verbatim>\<open>catch\<close>
  throws at line 292: nothing is delivered and the handler's promise is rejected.
\<close>

lemma store_rejects_with_nullish:
  assumes "getMemories rt = Inl ThrownNullish"
  shows "deliverReport rt js cb standupType
           = \<lparr>returned = Inl TypeError, delivered = [], generated = [standupType]\<rparr>"
  using assms by (simp add: deliverReport_def generateTeamReport_def outerCatch_def)

section \<open>The claims\<close>

text \<open>
  C1: when the store answers and none of its records passes the filter, the value of
  \<^verbatim>\<open>generateTeamReport\<close> is the heading line, an empty line and the line
  \<^verbatim>\<open>No updates found for "<category>" standups in this room.\<close> with the requested
  category in it, and nothing else: it has no section of a member. The four bytes at the
  head are the emoji of line 55.
\<close>

theorem no_matching_updates_message:
  assumes "getMemories rt = Inr memories"
    and "definedUpdates (map contentUpdate (filter (isTeamMemberUpdate js standupType) memories)) = []"
  shows "generateTeamReport rt js standupType n
           = Inr ([CHR 0xF0, CHR 0x9F, CHR 0x93, CHR 0x8A]
                  @ '' **Team Progress Report - '' @ standupType @ '' Standups**''
                  @ [CHR 0x0A, CHR 0x0A]
                  @ ''No updates found for '' @ [CHR 0x22] @ standupType @ [CHR 0x22]
                  @ '' standups in this room.'' @ [CHR 0x0A])"
  using assms
  by (simp add: generateTeamReport_def matchingUpdates_def arraySort_def comparable_def
        heading_def noUpdatesLine_def barChart_def nl_def dquote_def)

text \<open>Witness for C1: the store holds one chat message and no update.\<close>

theorem no_matching_updates_message_witness:
  "getMemories (exampleRuntime ''SPRINT'' [chatMemory]) = Inr [chatMemory]
   \<and> definedUpdates (map contentUpdate
         (filter (isTeamMemberUpdate exampleBuiltins ''sprint'') [chatMemory])) = []
   \<and> generateTeamReport (exampleRuntime ''SPRINT'' [chatMemory]) exampleBuiltins ''sprint'' 1
       = Inr ([CHR 0xF0, CHR 0x9F, CHR 0x93, CHR 0x8A]
              @ '' **Team Progress Report - sprint Standups**'' @ [CHR 0x0A, CHR 0x0A]
              @ ''No updates found for '' @ [CHR 0x22] @ ''sprint'' @ [CHR 0x22]
              @ '' standups in this room.'' @ [CHR 0x0A])"
proof -
  have a: "getMemories (exampleRuntime ''SPRINT'' [chatMemory]) = Inr [chatMemory]"
    by (simp add: exampleRuntime_def)
  have b: "definedUpdates (map contentUpdate
         (filter (isTeamMemberUpdate exampleBuiltins ''sprint'') [chatMemory])) = []"
    by (simp add: isTeamMemberUpdate_def chatMemory_def)
  show ?thesis
    using a b no_matching_updates_message [OF a b, of 1] by simp
qed


text \<open>
  C3 as stated fails. The return for an absent state is not the only path that invokes
  nothing: with a state and a callback at hand, a message with an empty text takes the
  return of line 206, and nothing is delivered.
\<close>

theorem handler_silent_without_text:
  "delivered (handler (exampleRuntime ''SPRINT'' []) exampleBuiltins (requestMessage [])
      (Some \<lparr>standupType' = None\<rparr>) (Some reliableCallback)) = []"
  by (simp add: handler_def messageText_def requestMessage_def)

text \<open>
  C3, as amended. The callback is not invoked when the state is absent, when no callback
  is given, or when the message has no text or an empty one. With a state, a callback and
  a message text that is not empty, the callback is invoked exactly once on every path
  (the classification fails, no type is found, the type is invalid, the report fails, the
  report is delivered), provided that its first invocation does not throw and that the
  store does not reject with \<^verbatim>\<open>null\<close> or \<^verbatim>\<open>undefined\<close>.
\<close>

theorem callback_invoked_once:
  "delivered (handler rt js message None callback) = []
   \<and> delivered (handler rt js message state None) = []
   \<and> (\<not> truthy (messageText message) \<longrightarrow>
        delivered (handler rt js message state callback) = [])
   \<and> (truthy (messageText message) \<and> (\<forall>delivery. cb 0 delivery = None)
        \<and> getMemories rt \<noteq> Inl ThrownNullish \<longrightarrow>
        length (delivered (handler rt js message (Some st) (Some cb))) = 1)"
proof -
  have absent: "delivered (handler rt js message None callback) = []"
    by (simp add: handler_def)
  have mute: "delivered (handler rt js message state None) = []"
    by (simp add: handler_def split: option.splits)
  have blank: "delivered (handler rt js message state callback) = []"
    if "\<not> truthy (messageText message)"
    using that by (cases "messageText message") (simp_all add: handler_def split: option.splits)
  have once: "length (delivered (handler rt js message (Some st) (Some cb))) = 1"
    if t: "truthy (messageText message)" and c: "\<forall>delivery. cb 0 delivery = None"
      and g: "getMemories rt \<noteq> Inl ThrownNullish"
  proof -
    from t obtain body where m: "messageText message = Some body" and n: "body \<noteq> []"
      by (cases "messageText message") simp_all
    have report: "length (delivered (deliverReport rt js cb standupType)) = 1" for standupType
    proof (cases "generateTeamReport rt js standupType 1")
      case (Inl e)
      with generateTeamReport_error [OF Inl] g have "e \<noteq> ThrownNullish"
        by auto
      with Inl c show ?thesis
        by (simp add: deliverReport_def outerCatch_def invoke_def)
    next
      case (Inr report)
      with c show ?thesis
        by (simp add: deliverReport_def invoke_def)
    qed
    have "length (delivered (classifyAndReport rt js body st cb)) = 1"
      using c report
      by (simp add: classifyAndReport_def innerCatch_def invoke_def Let_def split: sum.splits)
    with m n show ?thesis
      by (simp add: handler_def)
  qed
  from absent mute blank once show ?thesis
    by blast
qed

text \<open>
  Witness for C3: a message with an empty text, and a request for the sprint report with
  an empty store.
\<close>

theorem callback_invoked_once_witness:
  "\<not> truthy (messageText (requestMessage []))
   \<and> delivered (handler (exampleRuntime ''SPRINT'' []) exampleBuiltins (requestMessage [])
        (Some \<lparr>standupType' = Some ''sprint''\<rparr>) (Some reliableCallback)) = []
   \<and> truthy (messageText (requestMessage ''Can I see the sprint progress report?''))
   \<and> (\<forall>delivery. reliableCallback 0 delivery = None)
   \<and> getMemories (exampleRuntime ''SPRINT'' []) \<noteq> Inl ThrownNullish
   \<and> length (delivered (handler (exampleRuntime ''SPRINT'' []) exampleBuiltins
         (requestMessage ''Can I see the sprint progress report?'')
         (Some \<lparr>standupType' = None\<rparr>) (Some reliableCallback))) = 1"
proof -
  have a: "\<not> truthy (messageText (requestMessage []))"
    by (simp add: messageText_def requestMessage_def)
  have b: "truthy (messageText (requestMessage ''Can I see the sprint progress report?''))"
    by (simp add: messageText_def requestMessage_def)
  have c: "\<forall>delivery. reliableCallback 0 delivery = None"
    by (simp add: reliableCallback_def)
  have d: "getMemories (exampleRuntime ''SPRINT'' []) \<noteq> Inl ThrownNullish"
    by (simp add: exampleRuntime_def)
  from callback_invoked_once [where cb = reliableCallback and rt = "exampleRuntime ''SPRINT'' []"
      and message = "requestMessage ''Can I see the sprint progress report?''"] b c d
  have "length (delivered (handler (exampleRuntime ''SPRINT'' []) exampleBuiltins
         (requestMessage ''Can I see the sprint progress report?'')
         (Some \<lparr>standupType' = None\<rparr>) (Some reliableCallback))) = 1"
    by blast
  moreover
  from callback_invoked_once [where message = "requestMessage []"] a
  have "delivered (handler (exampleRuntime ''SPRINT'' []) exampleBuiltins (requestMessage [])
        (Some \<lparr>standupType' = Some ''sprint''\<rparr>) (Some reliableCallback)) = []"
    by blast
  ultimately show ?thesis
    using a b c d by blast
qed

text \<open>
  C4 as stated fails. A timestamp which does not parse does not make the operation fail:
  the text \<^verbatim>\<open>garbage\<close> is no date, and the report of a store that holds one update
  with this timestamp is returned.
\<close>

theorem unparsed_timestamp_no_error:
  "getTime exampleBuiltins (timestamp (exampleUpdate ''ann'' ''garbage'' None)) = None
   \<and> \<not> isl (generateTeamReport
         (exampleRuntime ''STANDUP'' [exampleMemory (exampleUpdate ''ann'' ''garbage'' None)])
         exampleBuiltins ''standup'' 1)"
  by code_simp

text \<open>
  C4, as amended: the sort keeps every filtered record, and when the timestamps of all
  of them parse, its result is in descending order of timestamp. A timestamp that does not
  parse raises no error: the comparator yields \<^verbatim>\<open>NaN\<close>, which the sort reads as
  \<open>0\<close>.
\<close>

theorem sort_descending_when_parsed:
  "mset (matchingUpdates js standupType memories)
     = mset (definedUpdates (map contentUpdate (filter (isTeamMemberUpdate js standupType) memories)))
   \<and> (list_all (parsedTimestamp js)
         (definedUpdates (map contentUpdate (filter (isTeamMemberUpdate js standupType) memories)))
        \<longrightarrow> sorted_wrt (\<lambda>a b. \<not> laterThan js b a) (matchingUpdates js standupType memories))"
  by (simp add: matchingUpdates_def mset_arraySort sorted_arraySort list_all_iff parsedTimestamp_def)

text \<open>Witness for C4: three updates with dates, returned by the store in no order.\<close>

theorem sort_descending_when_parsed_witness:
  "list_all (parsedTimestamp exampleBuiltins)
     (definedUpdates (map contentUpdate
        (filter (isTeamMemberUpdate exampleBuiltins ''sprint'') (map exampleMemory teamUpdates))))
   \<and> sorted_wrt (\<lambda>a b. \<not> laterThan exampleBuiltins b a)
        (matchingUpdates exampleBuiltins ''sprint'' (map exampleMemory teamUpdates))
   \<and> matchingUpdates exampleBuiltins ''sprint'' (map exampleMemory teamUpdates) = sortedTeamUpdates"
proof -
  have a: "list_all (parsedTimestamp exampleBuiltins)
     (definedUpdates (map contentUpdate
        (filter (isTeamMemberUpdate exampleBuiltins ''sprint'') (map exampleMemory teamUpdates))))"
    by code_simp
  from sort_descending_when_parsed [of exampleBuiltins "''sprint''" "map exampleMemory teamUpdates"] a
  have "sorted_wrt (\<lambda>a b. \<not> laterThan exampleBuiltins b a)
        (matchingUpdates exampleBuiltins ''sprint'' (map exampleMemory teamUpdates))"
    by blast
  with a matchingUpdates_teamUpdates show ?thesis
    by blast
qed

text \<open>
  C5 as stated fails. The sections do not come in the order in which the members first
  occur in the sorted records when identifiers are array indices: member 2 has the newest
  update and comes first in the sorted records, and the section of member 1 comes first in
  the report.
\<close>

theorem sections_not_in_first_seen_order:
  "firstSeen (map teamMemberId
      (matchingUpdates exampleBuiltins ''standup'' (map exampleMemory numericIdUpdates)))
     = [''2'', ''1'']
   \<and> map_sum id (map fst)
        (memberEntries
           (matchingUpdates exampleBuiltins ''standup'' (map exampleMemory numericIdUpdates)))
     = Inr [''1'', ''2'']"
  by code_simp

text \<open>
  C5, as amended: when the grouping returns, no two sections have the same member, the
  members of the sections are the members of the records, and the section of a member
  holds all records of this member, in their sorted order. The sections of the members
  whose identifier is an array index come first, in ascending numeric order; the other
  sections follow in the order in which their members first occur in the sorted records.
  So when no identifier is an array index, the sections are in first-occurrence order.
\<close>

theorem sections_grouped_by_member:
  assumes "memberEntries updates = Inr entries"
  shows "distinct (map fst entries)
         \<and> set (map fst entries) = set (map teamMemberId updates)
         \<and> list_all (\<lambda>(key, us). us = filter (\<lambda>u. teamMemberId u = key) updates) entries
         \<and> map fst entries
             = sort_key decimalValue (filter isArrayIndex (firstSeen (map teamMemberId updates)))
               @ filter (\<lambda>k. \<not> isArrayIndex k) (firstSeen (map teamMemberId updates))
         \<and> (list_all (\<lambda>u. \<not> isArrayIndex (teamMemberId u)) updates
              \<longrightarrow> map fst entries = firstSeen (map teamMemberId updates))"
proof -
  from assms obtain groups where g: "groupByMember updates = Inr groups"
    and e: "entries = objectEntries groups"
    by (rule memberEntries_groups)
  have keys: "map fst groups = firstSeen (map teamMemberId updates)"
    using g by (rule groupByMember_keys)
  have order: "map fst entries
             = sort_key decimalValue (filter isArrayIndex (firstSeen (map teamMemberId updates)))
               @ filter (\<lambda>k. \<not> isArrayIndex k) (firstSeen (map teamMemberId updates))"
    unfolding e keys_objectEntries keys ..
  have d: "distinct (map fst entries)"
    unfolding e by (rule distinct_keys_objectEntries) (simp add: keys distinct_firstSeen)
  have s: "set (map fst entries) = set (map teamMemberId updates)"
    unfolding e using set_objectEntries [of groups] keys set_firstSeen [of "map teamMemberId updates"]
    by (metis set_map)
  have c: "list_all (\<lambda>(key, us). us = filter (\<lambda>u. teamMemberId u = key) updates) entries"
    unfolding e list_all_iff set_objectEntries
    using groupByMember_entry [OF g] by auto
  have n: "map fst entries = firstSeen (map teamMemberId updates)"
    if "list_all (\<lambda>u. \<not> isArrayIndex (teamMemberId u)) updates"
  proof -
    have "\<forall>k \<in> set (firstSeen (map teamMemberId updates)). \<not> isArrayIndex k"
      using that by (auto simp: set_firstSeen list_all_iff)
    then have "filter isArrayIndex (firstSeen (map teamMemberId updates)) = []"
      and "filter (\<lambda>k. \<not> isArrayIndex k) (firstSeen (map teamMemberId updates))
            = firstSeen (map teamMemberId updates)"
      by (simp_all add: filter_empty_conv filter_id_conv)
    with order show ?thesis by simp
  qed
  from d s c order n show ?thesis by blast
qed

text \<open>Witness for C5: bob has the newest update, and his section comes first.\<close>

theorem sections_grouped_by_member_witness:
  "memberEntries sortedTeamUpdates
     = Inr [(''bob'', [exampleUpdate ''bob'' t5 (Some doneTests),
                      exampleUpdate ''bob'' t1 (Some ''not json'')]),
            (''ann'', [exampleUpdate ''ann'' t2 (Some ''{}'')])]
   \<and> list_all (\<lambda>u. \<not> isArrayIndex (teamMemberId u)) sortedTeamUpdates
   \<and> firstSeen (map teamMemberId sortedTeamUpdates) = [''bob'', ''ann'']
   \<and> map fst [(''bob'', [exampleUpdate ''bob'' t5 (Some doneTests),
                         exampleUpdate ''bob'' t1 (Some ''not json'')]),
               (''ann'', [exampleUpdate ''ann'' t2 (Some ''{}'')])]
       = firstSeen (map teamMemberId sortedTeamUpdates)"
proof -
  have a: "list_all (\<lambda>u. \<not> isArrayIndex (teamMemberId u)) sortedTeamUpdates"
    by code_simp
  have b: "firstSeen (map teamMemberId sortedTeamUpdates) = [''bob'', ''ann'']"
    by code_simp
  from sections_grouped_by_member [OF memberEntries_sortedTeamUpdates] a b
    memberEntries_sortedTeamUpdates
  show ?thesis
    by blast
qed

text \<open>
  C6 as stated fails. The entries shown as recent are not in descending order of timestamp
  when a timestamp does not parse: the store returns three updates of one member, of the
  times 1 and 5 with an update of no date between them. The comparator yields \<^verbatim>\<open>NaN\<close>
  for this update against each of the others, the sort leaves the three in place, the
  report is returned, and its section shows the update of time 5 after the update of
  time 1.
\<close>

theorem recent_entries_out_of_order:
  "generateTeamReport (exampleRuntime ''STANDUP'' (map exampleMemory gapUpdates))
     exampleBuiltins ''standup'' 1
     = Inr (heading ''standup''
            @ memberHeader ''member ann'' ''ann''
            @ clipboard @ '' **Productivity Analysis**:'' @ nl @ ''On track.'' @ nl @ nl
            @ calendar @ '' **Recent Updates**:'' @ nl
            @ (nl @ clock @ '' '' @ t1 @ nl)
            @ (nl @ clock @ '' Invalid Date'' @ nl)
            @ (nl @ clock @ '' '' @ t5 @ nl)
            @ separator)
   \<and> laterThan exampleBuiltins (exampleUpdate ''ann'' t5 None) (exampleUpdate ''ann'' t1 None)"
  by code_simp

text \<open>
  C6, as amended: when the store answers, the grouping returns and the text generation
  returns an analysis for a member, the section of this member in the report is its
  header, the analysis under \<^verbatim>\<open>**Productivity Analysis**:\<close>, and under
  \<^verbatim>\<open>**Recent Updates**:\<close> one entry (clock emoji, date, answers) for each of the first
  three records of this member in the sorted order, all of them when there are fewer: at
  most three entries. When the timestamps of all filtered records parse, these entries are
  in descending order of timestamp.
\<close>

theorem recent_entries_bounded_and_ordered:
  assumes "getMemories rt = Inr memories"
    and "memberEntries (matchingUpdates js standupType memories)
           = Inr (before @ (key, memberUpdates) # after)"
    and "useModel rt (n + length before)
           (analysisPrompt js (map (processUpdate js) memberUpdates)) = Inr analysis"
  shows "generateTeamReport rt js standupType n
           = Inr (heading standupType
                  @ reportSections rt js n before
                  @ (memberHeader (memberName memberUpdates) key
                     @ [CHR 0xF0, CHR 0x9F, CHR 0x93, CHR 0x8B] @ '' **Productivity Analysis**:''
                     @ [CHR 0x0A] @ analysis @ [CHR 0x0A, CHR 0x0A]
                     @ [CHR 0xF0, CHR 0x9F, CHR 0x93, CHR 0x85] @ '' **Recent Updates**:''
                     @ [CHR 0x0A]
                     @ concat (map (\<lambda>u. [CHR 0x0A] @ [CHR 0xF0, CHR 0x9F, CHR 0x95, CHR 0x92]
                                      @ '' '' @ toLocaleString js (timestamp u) @ [CHR 0x0A]
                                      @ answersText js u)
                              (take 3 memberUpdates))
                     @ separator)
                  @ reportSections rt js (Suc (n + length before)) after)
         \<and> memberUpdates
             = filter (\<lambda>u. teamMemberId u = key) (matchingUpdates js standupType memories)
         \<and> length (take 3 memberUpdates) \<le> 3
         \<and> (list_all (parsedTimestamp js) (matchingUpdates js standupType memories)
              \<longrightarrow> sorted_wrt (\<lambda>a b. \<not> laterThan js b a) (take 3 memberUpdates))"
proof -
  let ?updates = "matchingUpdates js standupType memories"
  from assms(2) obtain groups where g: "groupByMember ?updates = Inr groups"
    and e: "before @ (key, memberUpdates) # after = objectEntries groups"
    by (rule memberEntries_groups)
  have "(key, memberUpdates) \<in> set (objectEntries groups)"
    unfolding e [symmetric] by simp
  then have mu: "memberUpdates = filter (\<lambda>u. teamMemberId u = key) ?updates"
    using groupByMember_entry [OF g] set_objectEntries [of groups] by simp
  have ordered: "sorted_wrt (\<lambda>a b. \<not> laterThan js b a) (take 3 memberUpdates)"
    if p: "list_all (parsedTimestamp js) ?updates"
  proof -
    have "\<forall>u \<in> set (definedUpdates (map contentUpdate
             (filter (isTeamMemberUpdate js standupType) memories))). getTime js (timestamp u) \<noteq> None"
      using p by (simp add: matchingUpdates_def set_arraySort list_all_iff parsedTimestamp_def)
    then have "sorted_wrt (\<lambda>a b. \<not> laterThan js b a) ?updates"
      unfolding matchingUpdates_def by (rule sorted_arraySort)
    then have "sorted_wrt (\<lambda>a b. \<not> laterThan js b a) memberUpdates"
      unfolding mu by (rule sorted_wrt_filter)
    then show ?thesis
      by (rule sorted_wrt_take)
  qed
  have entry: "recentEntry js
          = (\<lambda>u. [CHR 0x0A] @ [CHR 0xF0, CHR 0x9F, CHR 0x95, CHR 0x92]
                  @ '' '' @ toLocaleString js (timestamp u) @ [CHR 0x0A] @ answersText js u)"
    by (rule ext) (simp add: recentEntry_def clock_def nl_def)
  have shown: "memberSection rt js (n + length before) (key, memberUpdates)
          = memberHeader (memberName memberUpdates) key
            @ [CHR 0xF0, CHR 0x9F, CHR 0x93, CHR 0x8B] @ '' **Productivity Analysis**:''
            @ [CHR 0x0A] @ analysis @ [CHR 0x0A, CHR 0x0A]
            @ [CHR 0xF0, CHR 0x9F, CHR 0x93, CHR 0x85] @ '' **Recent Updates**:''
            @ [CHR 0x0A]
            @ concat (map (\<lambda>u. [CHR 0x0A] @ [CHR 0xF0, CHR 0x9F, CHR 0x95, CHR 0x92]
                             @ '' '' @ toLocaleString js (timestamp u) @ [CHR 0x0A]
                             @ answersText js u)
                     (take 3 memberUpdates))
            @ separator"
    using assms(3)
    by (simp add: memberSection_def Let_def analysisText_def recentUpdates_def entry
          clipboard_def calendar_def nl_def)
  have report: "generateTeamReport rt js standupType n
           = Inr (heading standupType
                  @ reportSections rt js n before
                  @ memberSection rt js (n + length before) (key, memberUpdates)
                  @ reportSections rt js (Suc (n + length before)) after)"
    using assms(1,2) by (rule generateTeamReport_sections)
  show ?thesis
    using report mu ordered unfolding shown by simp
qed

text \<open>
  Witness for C6: four updates of one member; the three newest are shown, the newest
  first.
\<close>

theorem recent_entries_bounded_and_ordered_witness:
  "getMemories (exampleRuntime ''STANDUP'' (map exampleMemory busyUpdates))
     = Inr (map exampleMemory busyUpdates)
   \<and> memberEntries (matchingUpdates exampleBuiltins ''standup'' (map exampleMemory busyUpdates))
       = Inr ([] @ (''ann'', sortedBusyUpdates) # [])
   \<and> useModel (exampleRuntime ''STANDUP'' (map exampleMemory busyUpdates)) (1 + length [])
        (analysisPrompt exampleBuiltins (map (processUpdate exampleBuiltins) sortedBusyUpdates))
       = Inr ''On track.''
   \<and> list_all (parsedTimestamp exampleBuiltins)
        (matchingUpdates exampleBuiltins ''standup'' (map exampleMemory busyUpdates))
   \<and> generateTeamReport (exampleRuntime ''STANDUP'' (map exampleMemory busyUpdates))
        exampleBuiltins ''standup'' 1
       = Inr (heading ''standup''
              @ memberHeader ''member ann'' ''ann''
              @ clipboard @ '' **Productivity Analysis**:'' @ nl @ ''On track.'' @ nl @ nl
              @ calendar @ '' **Recent Updates**:'' @ nl
              @ (nl @ clock @ '' '' @ t5 @ nl @ bullet @ '' **done**: tests'' @ nl)
              @ (nl @ clock @ '' '' @ t2 @ nl)
              @ (nl @ clock @ '' '' @ t2 @ nl)
              @ separator)
   \<and> take 3 sortedBusyUpdates
       = [exampleUpdate ''ann'' t5 (Some doneTests), exampleUpdate ''ann'' t2 (Some ''{}''),
          exampleUpdate ''ann'' t2 None]
   \<and> sorted_wrt (\<lambda>a b. \<not> laterThan exampleBuiltins b a) (take 3 sortedBusyUpdates)"
proof -
  have a: "getMemories (exampleRuntime ''STANDUP'' (map exampleMemory busyUpdates))
             = Inr (map exampleMemory busyUpdates)"
    by (simp add: exampleRuntime_def)
  have b: "memberEntries (matchingUpdates exampleBuiltins ''standup'' (map exampleMemory busyUpdates))
             = Inr ([] @ (''ann'', sortedBusyUpdates) # [])"
    by code_simp
  have c: "useModel (exampleRuntime ''STANDUP'' (map exampleMemory busyUpdates)) (1 + length [])
        (analysisPrompt exampleBuiltins (map (processUpdate exampleBuiltins) sortedBusyUpdates))
       = Inr ''On track.''"
    by (simp add: exampleRuntime_def)
  have d: "list_all (parsedTimestamp exampleBuiltins)
        (matchingUpdates exampleBuiltins ''standup'' (map exampleMemory busyUpdates))"
    by code_simp
  have t: "take 3 sortedBusyUpdates
       = [exampleUpdate ''ann'' t5 (Some doneTests), exampleUpdate ''ann'' t2 (Some ''{}''),
          exampleUpdate ''ann'' t2 None]"
    by (simp add: sortedBusyUpdates_def)
  have n: "memberName sortedBusyUpdates = ''member ann''"
    by code_simp
  have l: "toLocaleString exampleBuiltins (timestamp (exampleUpdate ''ann'' t5 (Some doneTests))) = t5"
    "toLocaleString exampleBuiltins (timestamp (exampleUpdate ''ann'' t2 (Some ''{}''))) = t2"
    "toLocaleString exampleBuiltins (timestamp (exampleUpdate ''ann'' t2 None)) = t2"
    by code_simp+
  have s: "answersText exampleBuiltins (exampleUpdate ''ann'' t5 (Some doneTests))
             = bullet @ '' **done**: tests'' @ nl"
    "answersText exampleBuiltins (exampleUpdate ''ann'' t2 (Some ''{}'')) = []"
    "answersText exampleBuiltins (exampleUpdate ''ann'' t2 None) = []"
    by code_simp+
  from recent_entries_bounded_and_ordered [OF a b c] d
  have "generateTeamReport (exampleRuntime ''STANDUP'' (map exampleMemory busyUpdates))
          exampleBuiltins ''standup'' 1
         = Inr (heading ''standup''
              @ memberHeader ''member ann'' ''ann''
              @ clipboard @ '' **Productivity Analysis**:'' @ nl @ ''On track.'' @ nl @ nl
              @ calendar @ '' **Recent Updates**:'' @ nl
              @ (nl @ clock @ '' '' @ t5 @ nl @ bullet @ '' **done**: tests'' @ nl)
              @ (nl @ clock @ '' '' @ t2 @ nl)
              @ (nl @ clock @ '' '' @ t2 @ nl)
              @ separator)"
    and "sorted_wrt (\<lambda>a b. \<not> laterThan exampleBuiltins b a) (take 3 sortedBusyUpdates)"
    by (simp_all add: t n l s clipboard_def calendar_def clock_def nl_def)
  with a b c d t show ?thesis
    by blast
qed

text \<open>
  C7: let the answers of a record \<open>u\<close> be no JSON, and let the store answer and the
  grouping return. Then the record \<open>u\<close> itself stands for it in the data handed to the
  text generation, between the other records of the member, which are processed as they
  would be without it; the text shown for the answers of \<open>u\<close> is the line
  \<^verbatim>\<open>Error parsing update details\<close>; and the report is returned, with the sections of
  the other members before and after the section of the member of \<open>u\<close>. When the text
  generation returns an analysis, this section shows, for each of the first three records
  of the member, the date and the text of the answers of this record; when it fails, the
  section shows them for every record of the member.
\<close>

theorem malformed_answers_degrade_one_record:
  assumes "answers u = Some a" and "a \<noteq> []" and "JSON_parse js a = None"
    and "getMemories rt = Inr memories"
    and "memberEntries (matchingUpdates js standupType memories)
           = Inr (before @ (key, earlier @ u # later) # after)"
  shows "map (processUpdate js) (earlier @ u # later)
           = map (processUpdate js) earlier @ Raw u # map (processUpdate js) later
         \<and> answersText js u
             = [CHR 0xE2, CHR 0x96, CHR 0xAB, CHR 0xEF, CHR 0xB8, CHR 0x8F]
               @ '' Error parsing update details'' @ [CHR 0x0A]
         \<and> (useModel rt (n + length before)
               (analysisPrompt js
                  (map (processUpdate js) earlier @ Raw u # map (processUpdate js) later))
               = Inr analysis \<longrightarrow>
              generateTeamReport rt js standupType n
              = Inr (heading standupType
                     @ reportSections rt js n before
                     @ (memberHeader (memberName (earlier @ u # later)) key
                        @ [CHR 0xF0, CHR 0x9F, CHR 0x93, CHR 0x8B]
                        @ '' **Productivity Analysis**:''
                        @ [CHR 0x0A] @ analysis @ [CHR 0x0A, CHR 0x0A]
                        @ [CHR 0xF0, CHR 0x9F, CHR 0x93, CHR 0x85] @ '' **Recent Updates**:''
                        @ [CHR 0x0A]
                        @ concat (map (\<lambda>v. [CHR 0x0A] @ [CHR 0xF0, CHR 0x9F, CHR 0x95, CHR 0x92]
                                         @ '' '' @ toLocaleString js (timestamp v) @ [CHR 0x0A]
                                         @ answersText js v)
                                 (take 3 (earlier @ u # later)))
                        @ separator)
                     @ reportSections rt js (Suc (n + length before)) after))
         \<and> (useModel rt (n + length before)
               (analysisPrompt js
                  (map (processUpdate js) earlier @ Raw u # map (processUpdate js) later))
               = Inl e \<longrightarrow>
              generateTeamReport rt js standupType n
              = Inr (heading standupType
                     @ reportSections rt js n before
                     @ (memberHeader (memberName (earlier @ u # later)) key
                        @ [CHR 0xE2, CHR 0x9D, CHR 0x8C]
                        @ '' Error generating analysis. Showing raw updates:''
                        @ [CHR 0x0A, CHR 0x0A]
                        @ concat (map (\<lambda>v. ''Update from '' @ toLocaleString js (timestamp v)
                                         @ '':'' @ [CHR 0x0A] @ answersText js v)
                                 (earlier @ u # later))
                        @ separator)
                     @ reportSections rt js (Suc (n + length before)) after))"
proof -
  have d: "decodeAnswers js u = None"
    using assms(1-3) by (rule decodeAnswers_malformed)
  have p: "map (processUpdate js) (earlier @ u # later)
             = map (processUpdate js) earlier @ Raw u # map (processUpdate js) later"
    using d by (simp add: processUpdate_def)
  have t: "answersText js u
             = [CHR 0xE2, CHR 0x96, CHR 0xAB, CHR 0xEF, CHR 0xB8, CHR 0x8F]
               @ '' Error parsing update details'' @ [CHR 0x0A]"
    using d by (simp add: answersText_def errorLine_def bullet_def nl_def)
  have entry: "recentEntry js
          = (\<lambda>v. [CHR 0x0A] @ [CHR 0xF0, CHR 0x9F, CHR 0x95, CHR 0x92]
                  @ '' '' @ toLocaleString js (timestamp v) @ [CHR 0x0A] @ answersText js v)"
    by (rule ext) (simp add: recentEntry_def clock_def nl_def)
  have raw: "rawEntry js
          = (\<lambda>v. ''Update from '' @ toLocaleString js (timestamp v)
                  @ '':'' @ [CHR 0x0A] @ answersText js v)"
    by (rule ext) (simp add: rawEntry_def nl_def)
  have failed: "memberSection rt js (n + length before) (key, earlier @ u # later)
          = memberHeader (memberName (earlier @ u # later)) key
            @ [CHR 0xE2, CHR 0x9D, CHR 0x8C]
            @ '' Error generating analysis. Showing raw updates:''
            @ [CHR 0x0A, CHR 0x0A]
            @ concat (map (\<lambda>v. ''Update from '' @ toLocaleString js (timestamp v)
                             @ '':'' @ [CHR 0x0A] @ answersText js v)
                     (earlier @ u # later))
            @ separator"
    if "useModel rt (n + length before)
          (analysisPrompt js
             (map (processUpdate js) earlier @ Raw u # map (processUpdate js) later))
          = Inl e"
    using that unfolding p [symmetric]
    by (simp add: memberSection_def Let_def fallbackText_def raw crossMark_def nl_def)
  have shown: "memberSection rt js (n + length before) (key, earlier @ u # later)
          = memberHeader (memberName (earlier @ u # later)) key
            @ [CHR 0xF0, CHR 0x9F, CHR 0x93, CHR 0x8B] @ '' **Productivity Analysis**:''
            @ [CHR 0x0A] @ analysis @ [CHR 0x0A, CHR 0x0A]
            @ [CHR 0xF0, CHR 0x9F, CHR 0x93, CHR 0x85] @ '' **Recent Updates**:''
            @ [CHR 0x0A]
            @ concat (map (\<lambda>v. [CHR 0x0A] @ [CHR 0xF0, CHR 0x9F, CHR 0x95, CHR 0x92]
                             @ '' '' @ toLocaleString js (timestamp v) @ [CHR 0x0A]
                             @ answersText js v)
                     (take 3 (earlier @ u # later)))
            @ separator"
    if "useModel rt (n + length before)
          (analysisPrompt js
             (map (processUpdate js) earlier @ Raw u # map (processUpdate js) later))
          = Inr analysis"
    using that unfolding p [symmetric]
    by (simp add: memberSection_def Let_def analysisText_def recentUpdates_def entry
          clipboard_def calendar_def nl_def)
  have r: "generateTeamReport rt js standupType n
           = Inr (heading standupType
                  @ reportSections rt js n before
                  @ memberSection rt js (n + length before) (key, earlier @ u # later)
                  @ reportSections rt js (Suc (n + length before)) after)"
    using assms(4,5) by (rule generateTeamReport_sections)
  from p t r shown failed show ?thesis
    by simp
qed

text \<open>
  Witness for C7: bob has a newer update with answers and an older one whose answers are
  no JSON; ann has one update. The section of bob shows the answers of the newer update
  and the error line for the older one, and the section of ann follows.
\<close>

theorem malformed_answers_degrade_one_record_witness:
  "answers (exampleUpdate ''bob'' t1 (Some ''not json'')) = Some ''not json''
   \<and> ''not json'' \<noteq> []
   \<and> JSON_parse exampleBuiltins ''not json'' = None
   \<and> getMemories (exampleRuntime ''SPRINT'' (map exampleMemory teamUpdates))
       = Inr (map exampleMemory teamUpdates)
   \<and> memberEntries (matchingUpdates exampleBuiltins ''sprint'' (map exampleMemory teamUpdates))
       = Inr ([] @ (''bob'', [exampleUpdate ''bob'' t5 (Some doneTests)]
                            @ exampleUpdate ''bob'' t1 (Some ''not json'') # [])
                 # [(''ann'', annUpdates)])
   \<and> useModel (exampleRuntime ''SPRINT'' (map exampleMemory teamUpdates)) (1 + length [])
        (analysisPrompt exampleBuiltins
           (map (processUpdate exampleBuiltins) [exampleUpdate ''bob'' t5 (Some doneTests)]
            @ Raw (exampleUpdate ''bob'' t1 (Some ''not json''))
            # map (processUpdate exampleBuiltins) []))
       = Inr ''On track.''
   \<and> map (processUpdate exampleBuiltins) bobUpdates
       = [Decoded ''bob'' (Some ''member bob'') None ''STANDUP'' t5
            (Parsed (JObject [(''done'', ''tests'')])),
          Raw (exampleUpdate ''bob'' t1 (Some ''not json''))]
   \<and> generateTeamReport (exampleRuntime ''SPRINT'' (map exampleMemory teamUpdates))
        exampleBuiltins ''sprint'' 1
       = Inr (heading ''sprint''
              @ (memberHeader ''member bob'' ''bob''
                 @ clipboard @ '' **Productivity Analysis**:'' @ nl @ ''On track.'' @ nl @ nl
                 @ calendar @ '' **Recent Updates**:'' @ nl
                 @ (nl @ clock @ '' '' @ t5 @ nl @ bullet @ '' **done**: tests'' @ nl)
                 @ (nl @ clock @ '' '' @ t1 @ nl @ bullet @ '' Error parsing update details'' @ nl)
                 @ separator)
              @ (memberHeader ''member ann'' ''ann''
                 @ clipboard @ '' **Productivity Analysis**:'' @ nl @ ''On track.'' @ nl @ nl
                 @ calendar @ '' **Recent Updates**:'' @ nl
                 @ (nl @ clock @ '' '' @ t2 @ nl)
                 @ separator))
   \<and> getMemories (failingModel (map exampleMemory teamUpdates))
       = Inr (map exampleMemory teamUpdates)
   \<and> useModel (failingModel (map exampleMemory teamUpdates)) (1 + length [])
        (analysisPrompt exampleBuiltins
           (map (processUpdate exampleBuiltins) [exampleUpdate ''bob'' t5 (Some doneTests)]
            @ Raw (exampleUpdate ''bob'' t1 (Some ''not json''))
            # map (processUpdate exampleBuiltins) []))
       = Inl (Thrown ''model unavailable'')
   \<and> generateTeamReport (failingModel (map exampleMemory teamUpdates))
        exampleBuiltins ''sprint'' 1
       = Inr (heading ''sprint''
              @ (memberHeader ''member bob'' ''bob''
                 @ crossMark @ '' Error generating analysis. Showing raw updates:'' @ nl @ nl
                 @ (''Update from '' @ t5 @ '':'' @ nl @ bullet @ '' **done**: tests'' @ nl)
                 @ (''Update from '' @ t1 @ '':'' @ nl
                    @ bullet @ '' Error parsing update details'' @ nl)
                 @ separator)
              @ (memberHeader ''member ann'' ''ann''
                 @ crossMark @ '' Error generating analysis. Showing raw updates:'' @ nl @ nl
                 @ (''Update from '' @ t2 @ '':'' @ nl)
                 @ separator))"
proof -
  have a: "answers (exampleUpdate ''bob'' t1 (Some ''not json'')) = Some ''not json''"
    by (simp add: exampleUpdate_def)
  have b: "''not json'' \<noteq> []"
    by simp
  have c: "JSON_parse exampleBuiltins ''not json'' = None"
    by code_simp
  have d: "getMemories (exampleRuntime ''SPRINT'' (map exampleMemory teamUpdates))
             = Inr (map exampleMemory teamUpdates)"
    by (simp add: exampleRuntime_def)
  have e: "memberEntries (matchingUpdates exampleBuiltins ''sprint'' (map exampleMemory teamUpdates))
       = Inr ([] @ (''bob'', [exampleUpdate ''bob'' t5 (Some doneTests)]
                            @ exampleUpdate ''bob'' t1 (Some ''not json'') # [])
                 # [(''ann'', annUpdates)])"
    using memberEntries_sortedTeamUpdates
    by (simp add: matchingUpdates_teamUpdates annUpdates_def)
  have f: "useModel (exampleRuntime ''SPRINT'' (map exampleMemory teamUpdates)) (1 + length [])
        (analysisPrompt exampleBuiltins
           (map (processUpdate exampleBuiltins) [exampleUpdate ''bob'' t5 (Some doneTests)]
            @ Raw (exampleUpdate ''bob'' t1 (Some ''not json''))
            # map (processUpdate exampleBuiltins) []))
       = Inr ''On track.''"
    by (simp add: exampleRuntime_def)
  have n: "memberName [exampleUpdate ''bob'' t5 (Some doneTests),
                       exampleUpdate ''bob'' t1 (Some ''not json'')] = ''member bob''"
    by code_simp
  have l: "toLocaleString exampleBuiltins (timestamp (exampleUpdate ''bob'' t5 (Some doneTests))) = t5"
    "toLocaleString exampleBuiltins
       (timestamp (exampleUpdate ''bob'' t1 (Some ''not json''))) = t1"
    by code_simp+
  have s: "answersText exampleBuiltins (exampleUpdate ''bob'' t5 (Some doneTests))
             = bullet @ '' **done**: tests'' @ nl"
    by code_simp
  have g: "processUpdate exampleBuiltins (exampleUpdate ''bob'' t5 (Some doneTests))
      = Decoded ''bob'' (Some ''member bob'') None ''STANDUP'' t5
            (Parsed (JObject [(''done'', ''tests'')]))"
    by code_simp
  have h: "memberSection (exampleRuntime ''SPRINT'' (map exampleMemory teamUpdates))
             exampleBuiltins (Suc (Suc 0)) (''ann'', annUpdates)
           = memberHeader ''member ann'' ''ann''
             @ clipboard @ '' **Productivity Analysis**:'' @ nl @ ''On track.'' @ nl @ nl
             @ calendar @ '' **Recent Updates**:'' @ nl
             @ (nl @ clock @ '' '' @ t2 @ nl)
             @ separator"
    by code_simp
  have d2: "getMemories (failingModel (map exampleMemory teamUpdates))
             = Inr (map exampleMemory teamUpdates)"
    by (simp add: failingModel_def)
  have f2: "useModel (failingModel (map exampleMemory teamUpdates)) (1 + length [])
        (analysisPrompt exampleBuiltins
           (map (processUpdate exampleBuiltins) [exampleUpdate ''bob'' t5 (Some doneTests)]
            @ Raw (exampleUpdate ''bob'' t1 (Some ''not json''))
            # map (processUpdate exampleBuiltins) []))
       = Inl (Thrown ''model unavailable'')"
    by (simp add: failingModel_def)
  have h2: "memberSection (failingModel (map exampleMemory teamUpdates))
             exampleBuiltins (Suc (Suc 0)) (''ann'', annUpdates)
           = memberHeader ''member ann'' ''ann''
             @ crossMark @ '' Error generating analysis. Showing raw updates:'' @ nl @ nl
             @ (''Update from '' @ t2 @ '':'' @ nl)
             @ separator"
    by code_simp
  from malformed_answers_degrade_one_record [OF a b c d2 e,
      where n = 1 and e = "Thrown ''model unavailable''"] f2
  have below: "generateTeamReport (failingModel (map exampleMemory teamUpdates))
        exampleBuiltins ''sprint'' 1
       = Inr (heading ''sprint''
              @ (memberHeader ''member bob'' ''bob''
                 @ crossMark @ '' Error generating analysis. Showing raw updates:'' @ nl @ nl
                 @ (''Update from '' @ t5 @ '':'' @ nl @ bullet @ '' **done**: tests'' @ nl)
                 @ (''Update from '' @ t1 @ '':'' @ nl
                    @ bullet @ '' Error parsing update details'' @ nl)
                 @ separator)
              @ (memberHeader ''member ann'' ''ann''
                 @ crossMark @ '' Error generating analysis. Showing raw updates:'' @ nl @ nl
                 @ (''Update from '' @ t2 @ '':'' @ nl)
                 @ separator))"
    by (simp add: n l s h2 crossMark_def bullet_def nl_def)
  from malformed_answers_degrade_one_record [OF a b c d e,
      where n = 1 and analysis = "''On track.''"] f
  have "map (processUpdate exampleBuiltins) bobUpdates
       = [Decoded ''bob'' (Some ''member bob'') None ''STANDUP'' t5
            (Parsed (JObject [(''done'', ''tests'')])),
          Raw (exampleUpdate ''bob'' t1 (Some ''not json''))]"
    and "generateTeamReport (exampleRuntime ''SPRINT'' (map exampleMemory teamUpdates))
        exampleBuiltins ''sprint'' 1
       = Inr (heading ''sprint''
              @ (memberHeader ''member bob'' ''bob''
                 @ clipboard @ '' **Productivity Analysis**:'' @ nl @ ''On track.'' @ nl @ nl
                 @ calendar @ '' **Recent Updates**:'' @ nl
                 @ (nl @ clock @ '' '' @ t5 @ nl @ bullet @ '' **done**: tests'' @ nl)
                 @ (nl @ clock @ '' '' @ t1 @ nl @ bullet @ '' Error parsing update details'' @ nl)
                 @ separator)
              @ (memberHeader ''member ann'' ''ann''
                 @ clipboard @ '' **Productivity Analysis**:'' @ nl @ ''On track.'' @ nl @ nl
                 @ calendar @ '' **Recent Updates**:'' @ nl
                 @ (nl @ clock @ '' '' @ t2 @ nl)
                 @ separator))"
    by (simp_all add: bobUpdates_def n l s g h clipboard_def calendar_def clock_def bullet_def
          nl_def)
  with a b c d e f d2 f2 below show ?thesis
    by blast
qed

text \<open>
  C8: when the store answers and the grouping returns, and the call of the text
  generation for a member fails, the report is still returned, and the section of this
  member is its header, the line \<^verbatim>\<open>Error generating analysis. Showing raw updates:\<close>
  and the raw entries of all records of the member (not only the three newest), in place
  of an analysis. This holds for all records, whatever their answers are: the decoding
  of each record is caught inside its own entry.
\<close>

theorem analysis_failure_falls_back_to_raw:
  assumes "getMemories rt = Inr memories"
    and "memberEntries (matchingUpdates js standupType memories)
           = Inr (before @ (key, memberUpdates) # after)"
    and "useModel rt (n + length before)
           (analysisPrompt js (map (processUpdate js) memberUpdates)) = Inl e"
  shows "generateTeamReport rt js standupType n
           = Inr (heading standupType
                  @ reportSections rt js n before
                  @ (memberHeader (memberName memberUpdates) key
                     @ crossMark @ '' Error generating analysis. Showing raw updates:'' @ nl @ nl
                     @ concat (map (rawEntry js) memberUpdates)
                     @ separator)
                  @ reportSections rt js (Suc (n + length before)) after)"
proof -
  have "memberSection rt js (n + length before) (key, memberUpdates)
          = memberHeader (memberName memberUpdates) key
            @ crossMark @ '' Error generating analysis. Showing raw updates:'' @ nl @ nl
            @ concat (map (rawEntry js) memberUpdates)
            @ separator"
    using assms(3) by (simp add: memberSection_def Let_def fallbackText_def)
  with generateTeamReport_sections [OF assms(1,2), of n] show ?thesis by simp
qed

text \<open>
  Witness for C8: the text generation always fails; one of the two records of bob has
  answers that are no JSON.
\<close>

theorem analysis_failure_falls_back_to_raw_witness:
  "getMemories (failingModel (map exampleMemory teamUpdates)) = Inr (map exampleMemory teamUpdates)
   \<and> memberEntries (matchingUpdates exampleBuiltins ''sprint'' (map exampleMemory teamUpdates))
       = Inr ([] @ (''bob'', bobUpdates) # [(''ann'', annUpdates)])
   \<and> useModel (failingModel (map exampleMemory teamUpdates)) (1 + length [])
        (analysisPrompt exampleBuiltins (map (processUpdate exampleBuiltins) bobUpdates))
       = Inl (Thrown ''model unavailable'')
   \<and> generateTeamReport (failingModel (map exampleMemory teamUpdates)) exampleBuiltins ''sprint'' 1
       = Inr (heading ''sprint''
              @ (memberHeader ''member bob'' ''bob''
                 @ crossMark @ '' Error generating analysis. Showing raw updates:'' @ nl @ nl
                 @ (''Update from '' @ t5 @ '':'' @ nl @ bullet @ '' **done**: tests'' @ nl)
                 @ (''Update from '' @ t1 @ '':'' @ nl @ errorLine)
                 @ separator)
              @ memberSection (failingModel (map exampleMemory teamUpdates)) exampleBuiltins 2
                  (''ann'', annUpdates))"
proof -
  have a: "getMemories (failingModel (map exampleMemory teamUpdates))
             = Inr (map exampleMemory teamUpdates)"
    by (simp add: failingModel_def)
  have b: "memberEntries (matchingUpdates exampleBuiltins ''sprint'' (map exampleMemory teamUpdates))
       = Inr ([] @ (''bob'', bobUpdates) # [(''ann'', annUpdates)])"
    using memberEntries_sortedTeamUpdates
    by (simp add: matchingUpdates_teamUpdates annUpdates_def bobUpdates_def)
  have c: "useModel (failingModel (map exampleMemory teamUpdates)) (1 + length [])
        (analysisPrompt exampleBuiltins (map (processUpdate exampleBuiltins) bobUpdates))
       = Inl (Thrown ''model unavailable'')"
    by (simp add: failingModel_def)
  have n: "memberName bobUpdates = ''member bob''"
    by code_simp
  have r: "concat (map (rawEntry exampleBuiltins) bobUpdates)
       = (''Update from '' @ t5 @ '':'' @ nl @ bullet @ '' **done**: tests'' @ nl)
         @ (''Update from '' @ t1 @ '':'' @ nl @ errorLine)"
    by code_simp
  from analysis_failure_falls_back_to_raw [OF a b c] a b c show ?thesis
    by (simp add: n r numeral_2_eq_2)
qed

text \<open>
  C9 as stated fails. The type that line 244 normalizes and line 253 checks is
  \<^verbatim>\<open>state.standupType\<close> when the state has one, and the classification only
  otherwise. With \<^verbatim>\<open>sprint\<close> in the state, a classification \<^verbatim>\<open>WEEKLY\<close>, which is
  normalized to \<^verbatim>\<open>weekly\<close> and is no member of the enumeration, is not looked at:
  \<^verbatim>\<open>generateTeamReport\<close> is called for \<^verbatim>\<open>sprint\<close>, one text is delivered, which
  is the report and no rejection, and the handler returns \<^verbatim>\<open>true\<close>.
\<close>

theorem state_type_overrides_classification:
  "useModel (exampleRuntime ''WEEKLY'' []) 0 (classificationPrompt ''Show me the weekly numbers'')
     = Inr ''WEEKLY''
   \<and> trim exampleBuiltins (toLowerCase exampleBuiltins ''WEEKLY'') = ''weekly''
   \<and> ''weekly'' \<notin> set [''standup'', ''sprint'', ''mental_health'', ''project_status'', ''retro'']
   \<and> handler (exampleRuntime ''WEEKLY'' []) exampleBuiltins
        (requestMessage ''Show me the weekly numbers'')
        (Some \<lparr>standupType' = Some ''sprint''\<rparr>) (Some reliableCallback)
       = \<lparr>returned = Inr True,
          delivered = [heading ''sprint'' @ noUpdatesLine ''sprint''],
          generated = [''sprint'']\<rparr>"
  by code_simp

text \<open>
  C9, as amended: let the handler have a state, a callback and a message text, and let
  the classification return. The type at hand is \<^verbatim>\<open>state.standupType\<close> when this is
  set and the classification otherwise. When no type is at hand (no type in the state and
  an empty classification), \<^verbatim>\<open>generateTeamReport\<close> is not called and the first text
  handed to the callback is the prompt \<^verbatim>\<open>Please select a check-in type: ...\<close>; when
  the callback completes, this is the only delivery and the handler returns \<^verbatim>\<open>true\<close>.
  When a type is at hand and, in lower case and trimmed, it is none of \<^verbatim>\<open>standup\<close>,
  \<^verbatim>\<open>sprint\<close>, \<^verbatim>\<open>mental_health\<close>, \<^verbatim>\<open>project_status\<close>, \<^verbatim>\<open>retro\<close>,
  \<^verbatim>\<open>generateTeamReport\<close> is not called and the first text handed to the callback is
  the rejection \<^verbatim>\<open>Invalid check-in type. ...\<close>; when the callback completes, this is
  the only delivery and the handler returns \<^verbatim>\<open>false\<close>. When it is one of the five,
  \<^verbatim>\<open>generateTeamReport\<close> is called once, with it.
\<close>

theorem invalid_type_rejected:
  assumes "messageText message = Some t" and "t \<noteq> []"
    and "useModel rt 0 (classificationPrompt t) = Inr parsedType"
  shows "(\<not> truthy (standupType' st) \<and> parsedType = [] \<longrightarrow>
            generated (handler rt js message (Some st) (Some cb)) = []
            \<and> take 1 (delivered (handler rt js message (Some st) (Some cb)))
                = [''Please select a check-in type:'' @ [CHR 0x0A]
                   @ ''          - Daily Standup (STANDUP)'' @ [CHR 0x0A]
                   @ ''          - Sprint Check-in (SPRINT) '' @ [CHR 0x0A]
                   @ ''          - Mental Health Check-in (MENTAL_HEALTH)'' @ [CHR 0x0A]
                   @ ''          - Project Status Update (PROJECT_STATUS)'' @ [CHR 0x0A]
                   @ ''          - Team Retrospective (RETRO)'']
            \<and> (cb 0 selectTypeTemplate = None \<longrightarrow>
                 length (delivered (handler rt js message (Some st) (Some cb))) = 1
                 \<and> returned (handler rt js message (Some st) (Some cb)) = Inr True))
         \<and> (\<not> (\<not> truthy (standupType' st) \<and> parsedType = [])
             \<and> trim js (toLowerCase js
                  (case standupType' st of
                     None \<Rightarrow> parsedType
                   | Some s \<Rightarrow> if s = [] then parsedType else s))
                \<notin> set [''standup'', ''sprint'', ''mental_health'', ''project_status'', ''retro'']
             \<longrightarrow>
            generated (handler rt js message (Some st) (Some cb)) = []
            \<and> take 1 (delivered (handler rt js message (Some st) (Some cb)))
                = [''Invalid check-in type. Please select one of: Daily Standup, ''
                   @ ''Sprint Check-in, Mental Health Check-in, Project Status Update, ''
                   @ ''or Team Retrospective'']
            \<and> (cb 0 invalidTypeText = None \<longrightarrow>
                 length (delivered (handler rt js message (Some st) (Some cb))) = 1
                 \<and> returned (handler rt js message (Some st) (Some cb)) = Inr False))
         \<and> (\<not> (\<not> truthy (standupType' st) \<and> parsedType = [])
             \<and> trim js (toLowerCase js
                  (case standupType' st of
                     None \<Rightarrow> parsedType
                   | Some s \<Rightarrow> if s = [] then parsedType else s))
                \<in> set [''standup'', ''sprint'', ''mental_health'', ''project_status'', ''retro'']
             \<longrightarrow>
            generated (handler rt js message (Some st) (Some cb))
            = [trim js (toLowerCase js
                 (case standupType' st of
                    None \<Rightarrow> parsedType
                  | Some s \<Rightarrow> if s = [] then parsedType else s))])"
proof -
  have h: "handler rt js message (Some st) (Some cb) = classifyAndReport rt js t st cb"
    using assms(1,2) by (simp add: handler_def)
  have prompt: "selectTypeTemplate
      = ''Please select a check-in type:'' @ [CHR 0x0A]
        @ ''          - Daily Standup (STANDUP)'' @ [CHR 0x0A]
        @ ''          - Sprint Check-in (SPRINT) '' @ [CHR 0x0A]
        @ ''          - Mental Health Check-in (MENTAL_HEALTH)'' @ [CHR 0x0A]
        @ ''          - Project Status Update (PROJECT_STATUS)'' @ [CHR 0x0A]
        @ ''          - Team Retrospective (RETRO)''"
    by (simp add: selectTypeTemplate_def nl_def)
  have rejection: "invalidTypeText
      = ''Invalid check-in type. Please select one of: Daily Standup, ''
        @ ''Sprint Check-in, Mental Health Check-in, Project Status Update, ''
        @ ''or Team Retrospective''"
    by (simp add: invalidTypeText_def)
  have none: "generated (classifyAndReport rt js t st cb) = []
      \<and> take 1 (delivered (classifyAndReport rt js t st cb)) = [selectTypeTemplate]
      \<and> (cb 0 selectTypeTemplate = None \<longrightarrow>
           length (delivered (classifyAndReport rt js t st cb)) = 1
           \<and> returned (classifyAndReport rt js t st cb) = Inr True)"
    if "\<not> truthy (standupType' st) \<and> parsedType = []"
    using that assms(3)
    by (auto simp: classifyAndReport_def innerCatch_def outerCatch_def invoke_def
             split: option.splits)
  have invalid: "generated (classifyAndReport rt js t st cb) = []
      \<and> take 1 (delivered (classifyAndReport rt js t st cb)) = [invalidTypeText]
      \<and> (cb 0 invalidTypeText = None \<longrightarrow>
           length (delivered (classifyAndReport rt js t st cb)) = 1
           \<and> returned (classifyAndReport rt js t st cb) = Inr False)"
    if "\<not> (\<not> truthy (standupType' st) \<and> parsedType = [])"
      and "trim js (toLowerCase js
                  (case standupType' st of
                     None \<Rightarrow> parsedType
                   | Some s \<Rightarrow> if s = [] then parsedType else s))
                \<notin> set [''standup'', ''sprint'', ''mental_health'', ''project_status'', ''retro'']"
  proof -
    have "\<not> list_ex (\<lambda>type. normalizedType js st parsedType = type) validTypes"
      using that(2) by (simp add: normalizedType_def orElse_def validTypes_def)
    with that(1) assms(3) show ?thesis
      by (auto simp: classifyAndReport_def innerCatch_def outerCatch_def invoke_def Let_def
               split: option.splits)
  qed
  have valid: "generated (classifyAndReport rt js t st cb)
      = [trim js (toLowerCase js
           (case standupType' st of
              None \<Rightarrow> parsedType
            | Some s \<Rightarrow> if s = [] then parsedType else s))]"
    if "\<not> (\<not> truthy (standupType' st) \<and> parsedType = [])"
      and "trim js (toLowerCase js
                  (case standupType' st of
                     None \<Rightarrow> parsedType
                   | Some s \<Rightarrow> if s = [] then parsedType else s))
                \<in> set [''standup'', ''sprint'', ''mental_health'', ''project_status'', ''retro'']"
  proof -
    have n: "normalizedType js st parsedType
        = trim js (toLowerCase js
           (case standupType' st of
              None \<Rightarrow> parsedType
            | Some s \<Rightarrow> if s = [] then parsedType else s))"
      by (simp add: normalizedType_def orElse_def)
    have "list_ex (\<lambda>type. normalizedType js st parsedType = type) validTypes"
      using that(2) unfolding n by (auto simp: validTypes_def)
    with that(1) assms(3)
    have "classifyAndReport rt js t st cb
            = deliverReport rt js cb (normalizedType js st parsedType)"
      by (auto simp: classifyAndReport_def Let_def)
    moreover have "generated (deliverReport rt js cb standupType) = [standupType]"
      for standupType
      by (simp add: deliverReport_def outerCatch_def invoke_def split: sum.splits option.splits)
    ultimately show ?thesis
      unfolding n by simp
  qed
  from none invalid valid show ?thesis
    unfolding h prompt [symmetric] rejection [symmetric] by blast
qed

text \<open>
  Witness for C9: no type in the state; an empty classification is answered by the
  prompt, and the classification \<^verbatim>\<open>WEEKLY\<close>, which is normalized to \<^verbatim>\<open>weekly\<close>, by
  the rejection.
\<close>

theorem invalid_type_rejected_witness:
  "messageText (requestMessage ''Show me the weekly numbers'') = Some ''Show me the weekly numbers''
   \<and> ''Show me the weekly numbers'' \<noteq> []
   \<and> useModel (exampleRuntime [] []) 0 (classificationPrompt ''Show me the weekly numbers'')
       = Inr []
   \<and> \<not> truthy (standupType' \<lparr>standupType' = None\<rparr>)
   \<and> reliableCallback 0 selectTypeTemplate = None
   \<and> handler (exampleRuntime [] []) exampleBuiltins
        (requestMessage ''Show me the weekly numbers'')
        (Some \<lparr>standupType' = None\<rparr>) (Some reliableCallback)
       = \<lparr>returned = Inr True, delivered = [selectTypeTemplate], generated = []\<rparr>
   \<and> useModel (exampleRuntime ''WEEKLY'' []) 0 (classificationPrompt ''Show me the weekly numbers'')
       = Inr ''WEEKLY''
   \<and> ''WEEKLY'' \<noteq> []
   \<and> trim exampleBuiltins (toLowerCase exampleBuiltins
        (case standupType' \<lparr>standupType' = None\<rparr> of
           None \<Rightarrow> ''WEEKLY''
         | Some s \<Rightarrow> if s = [] then ''WEEKLY'' else s)) = ''weekly''
   \<and> ''weekly'' \<notin> set [''standup'', ''sprint'', ''mental_health'', ''project_status'', ''retro'']
   \<and> reliableCallback 0 invalidTypeText = None
   \<and> generated (handler (exampleRuntime ''WEEKLY'' []) exampleBuiltins
        (requestMessage ''Show me the weekly numbers'')
        (Some \<lparr>standupType' = None\<rparr>) (Some reliableCallback)) = []
   \<and> delivered (handler (exampleRuntime ''WEEKLY'' []) exampleBuiltins
        (requestMessage ''Show me the weekly numbers'')
        (Some \<lparr>standupType' = None\<rparr>) (Some reliableCallback))
       = [''Invalid check-in type. Please select one of: Daily Standup, ''
          @ ''Sprint Check-in, Mental Health Check-in, Project Status Update, ''
          @ ''or Team Retrospective'']
   \<and> returned (handler (exampleRuntime ''WEEKLY'' []) exampleBuiltins
        (requestMessage ''Show me the weekly numbers'')
        (Some \<lparr>standupType' = None\<rparr>) (Some reliableCallback)) = Inr False
   \<and> useModel (exampleRuntime ''  Retro '' []) 0
        (classificationPrompt ''Show me the weekly numbers'') = Inr ''  Retro ''
   \<and> ''  Retro '' \<noteq> []
   \<and> trim exampleBuiltins (toLowerCase exampleBuiltins
        (case standupType' \<lparr>standupType' = None\<rparr> of
           None \<Rightarrow> ''  Retro ''
         | Some s \<Rightarrow> if s = [] then ''  Retro '' else s)) = ''retro''
   \<and> ''retro'' \<in> set [''standup'', ''sprint'', ''mental_health'', ''project_status'', ''retro'']
   \<and> generated (handler (exampleRuntime ''  Retro '' []) exampleBuiltins
        (requestMessage ''Show me the weekly numbers'')
        (Some \<lparr>standupType' = None\<rparr>) (Some reliableCallback)) = [''retro'']"
proof -
  let ?m = "requestMessage ''Show me the weekly numbers''"
  let ?st = "\<lparr>standupType' = None\<rparr>"
  have a: "messageText ?m = Some ''Show me the weekly numbers''"
    by (simp add: messageText_def requestMessage_def)
  have b: "''Show me the weekly numbers'' \<noteq> []"
    by simp
  have c0: "useModel (exampleRuntime [] []) 0 (classificationPrompt ''Show me the weekly numbers'')
             = Inr []"
    by (simp add: exampleRuntime_def)
  have c: "useModel (exampleRuntime ''WEEKLY'' []) 0
             (classificationPrompt ''Show me the weekly numbers'') = Inr ''WEEKLY''"
    by (simp add: exampleRuntime_def)
  have d: "\<not> truthy (standupType' ?st)"
    by simp
  have w: "''WEEKLY'' \<noteq> []"
    by simp
  have n: "trim exampleBuiltins (toLowerCase exampleBuiltins
        (case standupType' ?st of
           None \<Rightarrow> ''WEEKLY''
         | Some s \<Rightarrow> if s = [] then ''WEEKLY'' else s)) = ''weekly''"
    by code_simp
  have v: "''weekly'' \<notin> set [''standup'', ''sprint'', ''mental_health'', ''project_status'', ''retro'']"
    by simp
  have f0: "reliableCallback 0 selectTypeTemplate = None"
    by (simp add: reliableCallback_def)
  have f: "reliableCallback 0 invalidTypeText = None"
    by (simp add: reliableCallback_def)
  have first: "handler (exampleRuntime [] []) exampleBuiltins ?m (Some ?st) (Some reliableCallback)
       = \<lparr>returned = Inr True, delivered = [selectTypeTemplate], generated = []\<rparr>"
  proof -
    let ?h = "handler (exampleRuntime [] []) exampleBuiltins ?m (Some ?st) (Some reliableCallback)"
    from invalid_type_rejected [OF a b c0, where st = ?st and cb = reliableCallback
        and js = exampleBuiltins] d f0
    have "generated ?h = []" and "take 1 (delivered ?h) = [selectTypeTemplate]"
      and "length (delivered ?h) = 1" and "returned ?h = Inr True"
      by (simp_all add: selectTypeTemplate_def nl_def)
    moreover from this(2,3) have "delivered ?h = [selectTypeTemplate]"
      by (cases "delivered ?h") simp_all
    ultimately show ?thesis
      by (cases ?h) simp
  qed
  let ?k = "handler (exampleRuntime ''WEEKLY'' []) exampleBuiltins ?m (Some ?st)
              (Some reliableCallback)"
  from invalid_type_rejected [OF a b c, where st = ?st and cb = reliableCallback
      and js = exampleBuiltins] d w n v f
  have g: "generated ?k = []"
    and k1: "take 1 (delivered ?k)
       = [''Invalid check-in type. Please select one of: Daily Standup, ''
          @ ''Sprint Check-in, Mental Health Check-in, Project Status Update, ''
          @ ''or Team Retrospective'']"
    and k2: "length (delivered ?k) = 1" and r: "returned ?k = Inr False"
    by simp_all
  from k1 k2 have "delivered ?k
       = [''Invalid check-in type. Please select one of: Daily Standup, ''
          @ ''Sprint Check-in, Mental Health Check-in, Project Status Update, ''
          @ ''or Team Retrospective'']"
    by (cases "delivered ?k") simp_all
  moreover
  have c2: "useModel (exampleRuntime ''  Retro '' []) 0
        (classificationPrompt ''Show me the weekly numbers'') = Inr ''  Retro ''"
    by (simp add: exampleRuntime_def)
  have w2: "''  Retro '' \<noteq> []"
    by simp
  have n2: "trim exampleBuiltins (toLowerCase exampleBuiltins
        (case standupType' ?st of
           None \<Rightarrow> ''  Retro ''
         | Some s \<Rightarrow> if s = [] then ''  Retro '' else s)) = ''retro''"
    by code_simp
  have v2: "''retro'' \<in> set [''standup'', ''sprint'', ''mental_health'', ''project_status'', ''retro'']"
    by simp
  from invalid_type_rejected [OF a b c2, where st = ?st and cb = reliableCallback
      and js = exampleBuiltins] d w2 n2 v2
  have "generated (handler (exampleRuntime ''  Retro '' []) exampleBuiltins ?m (Some ?st)
          (Some reliableCallback)) = [''retro'']"
    by simp
  ultimately show ?thesis
    using a b c0 c d w n v f0 f first g r c2 w2 n2 v2 by blast
qed

text \<open>
  C10: whenever \<^verbatim>\<open>generateTeamReport\<close> returns a string, whether records match or
  not and whichever fallback is taken, the string begins with the emoji of line 55 and
  the heading line \<^verbatim>\<open> **Team Progress Report - <standupType> Standups**\<close> with the
  requested category in it, followed by an empty line.
\<close>

theorem report_begins_with_heading:
  assumes "generateTeamReport rt js standupType n = Inr report"
  shows "prefix ([CHR 0xF0, CHR 0x9F, CHR 0x93, CHR 0x8A]
                 @ '' **Team Progress Report - '' @ standupType @ '' Standups**''
                 @ [CHR 0x0A, CHR 0x0A]) report"
proof -
  have "prefix (heading standupType) report"
    using assms
    by (auto simp: generateTeamReport_def Let_def split: sum.splits if_splits)
  then show ?thesis
    by (simp add: heading_def barChart_def nl_def)
qed

text \<open>Witness for C10: a report with two sections, both of the fallback.\<close>

theorem report_begins_with_heading_witness:
  "generateTeamReport (failingModel (map exampleMemory teamUpdates)) exampleBuiltins ''sprint'' 1
     = Inr (heading ''sprint''
            @ reportSections (failingModel (map exampleMemory teamUpdates)) exampleBuiltins 1
                [(''bob'', bobUpdates), (''ann'', annUpdates)])
   \<and> prefix ([CHR 0xF0, CHR 0x9F, CHR 0x93, CHR 0x8A]
              @ '' **Team Progress Report - sprint Standups**'' @ [CHR 0x0A, CHR 0x0A])
        (heading ''sprint''
         @ reportSections (failingModel (map exampleMemory teamUpdates)) exampleBuiltins 1
             [(''bob'', bobUpdates), (''ann'', annUpdates)])"
proof -
  have a: "generateTeamReport (failingModel (map exampleMemory teamUpdates)) exampleBuiltins
             ''sprint'' 1
           = Inr (heading ''sprint''
                  @ reportSections (failingModel (map exampleMemory teamUpdates)) exampleBuiltins 1
                      [(''bob'', bobUpdates), (''ann'', annUpdates)])"
    using memberEntries_sortedTeamUpdates
    by (simp add: generateTeamReport_def Let_def failingModel_def matchingUpdates_teamUpdates
          sortedTeamUpdates_def bobUpdates_def annUpdates_def)
  from report_begins_with_heading [OF a] a show ?thesis
    by simp
qed

end
